theory Spec2Isabelle
  imports Main "HOL-Library.Word"
begin

section \<open>SkyFrame enhancement jobs: a shallow embedding of the backend\<close>

text \<open>
  The theory embeds \<^verbatim>\<open>config.py\<close>, \<^verbatim>\<open>storage.py\<close>, the jobs part of
  \<^verbatim>\<open>database.py\<close> and \<^verbatim>\<open>enhance.py\<close>.

  Conventions of the embedding.
  \<^item> A Python \<^verbatim>\<open>str\<close> is a \<open>string\<close>; a \<open>char\<close> stands for the code point of the
    same number, so the strings of the model are those over code points below 256.
  \<^item> A raised exception is the result \<open>Raise e\<close>; \<open>str(e)\<close> is \<open>str_exn e\<close>.
  \<^item> The store, the file system, the scheduled tasks and two logs (the \<^verbatim>\<open>update_job\<close>
    calls and the calls to the external services, both in call order) form the record
    \<open>state\<close>, which every operation takes and returns.
  \<^item> What the outside world answers (the prediction service, the HTTP server, the clock)
    is the record \<open>ext\<close>.
  \<^item> The store itself is taken to work: a statement of \<^verbatim>\<open>database.py\<close> raises only
    where SQLite's constraints say so (the primary key of \<^verbatim>\<open>jobs\<close>). Logging is left out.
  \<^item> The execution unit runs undisturbed: the cancellation of its task and the exit of the
    interpreter, which \<^verbatim>\<open>except Exception\<close> does not catch, are not modelled, and no
    other task writes to its job.
\<close>

subsection \<open>Strings\<close>

text \<open>Python's \<^verbatim>\<open>sub in s\<close> on strings: \<open>sub\<close> occurs in \<open>s\<close> as a contiguous block.\<close>

fun contains :: "'a list \<Rightarrow> 'a list \<Rightarrow> bool" where
  "contains sub [] = (sub = [])"
| "contains sub (c # cs) = (take (length sub) (c # cs) = sub \<or> contains sub cs)"

text \<open>
  \<^verbatim>\<open>str.isalnum\<close> on one character, for the code points below 256: the ASCII digits and
  letters, and the Latin-1 letters and numeric characters (feminine and masculine ordinal,
  micro sign, superscripts one to three, the three vulgar fractions, and the accented
  letters without the multiplication and division signs).
\<close>

definition isalnum :: "char \<Rightarrow> bool" where
  "isalnum c =
     (let n = (of_char c :: nat) in
        (48 \<le> n \<and> n \<le> 57) \<or> (65 \<le> n \<and> n \<le> 90) \<or> (97 \<le> n \<and> n \<le> 122) \<or>
        n = 170 \<or> n = 178 \<or> n = 179 \<or> n = 181 \<or> n = 185 \<or> n = 186 \<or>
        (188 \<le> n \<and> n \<le> 190) \<or> (192 \<le> n \<and> n \<le> 214) \<or>
        (216 \<le> n \<and> n \<le> 246) \<or> (248 \<le> n \<and> n \<le> 255))"

text \<open>\<^verbatim>\<open>str(n)\<close> of a natural number, and the format \<^verbatim>\<open>{n:02d}\<close>.\<close>

definition digit_char :: "nat \<Rightarrow> char" where
  "digit_char d = ''0123456789'' ! d"

fun str_nat :: "nat \<Rightarrow> string" where
  "str_nat n = (if n < 10 then [digit_char n] else str_nat (n div 10) @ [digit_char (n mod 10)])"

declare str_nat.simps [simp del]

definition fmt_02d :: "nat \<Rightarrow> string" where
  "fmt_02d n = (let s = str_nat n in replicate (2 - length s) (CHR ''0'') @ s)"

text \<open>\<^verbatim>\<open>repr\<close> of a list of plain strings (no quote, backslash or control character).\<close>

definition repr_str :: "string \<Rightarrow> string" where
  "repr_str s = [CHR 0x27] @ s @ [CHR 0x27]"

fun join_comma :: "string list \<Rightarrow> string" where
  "join_comma [] = []"
| "join_comma [s] = s"
| "join_comma (s # t # ss) = s @ '', '' @ join_comma (t # ss)"

definition repr_str_list :: "string list \<Rightarrow> string" where
  "repr_str_list ks = ''['' @ join_comma (map repr_str ks) @ '']''"

subsection \<open>config.py\<close>

definition REPLICATE_MODELS :: "(string \<times> string) list" where
  "REPLICATE_MODELS =
     [(''upscale'', ''lucataco/real-esrgan-video''),
      (''upscale_premium'', ''topazlabs/video-upscale'')]"

definition DEFAULT_ENHANCE_MODEL :: string where
  "DEFAULT_ENHANCE_MODEL = ''upscale''"

definition DEFAULT_SCALE_FACTOR :: int where
  "DEFAULT_SCALE_FACTOR = 2"

text \<open>The two constants of the job polling; no function of the backend reads them.\<close>

definition JOB_POLL_INTERVAL_SEC :: nat where
  "JOB_POLL_INTERVAL_SEC = 5"

definition JOB_MAX_WAIT_SEC :: nat where
  "JOB_MAX_WAIT_SEC = 600"

subsection \<open>storage.py\<close>

text \<open>
  \<^verbatim>\<open>datetime.utcnow()\<close> as far as \<^verbatim>\<open>generate_output_key\<close> reads it. The function
  takes the date as an argument: it is what the clock answers at the call.
\<close>

record date =
  year :: nat
  month :: nat
  day :: nat

definition safe_name :: "string \<Rightarrow> string" where
  "safe_name filename =
     map (\<lambda>c. if isalnum c \<or> c \<in> set ''._-'' then c else CHR ''_'') filename"

definition generate_output_key :: "date \<Rightarrow> string \<Rightarrow> string \<Rightarrow> string" where
  "generate_output_key now job_id filename =
     ''outputs/'' @ str_nat (year now) @ ''/'' @ fmt_02d (month now) @ ''/'' @
     fmt_02d (day now) @ ''/'' @ job_id @ ''_'' @ safe_name filename"

text \<open>
  \<^verbatim>\<open>STORAGE_DIR / storage_key\<close> for a relative key; \<^verbatim>\<open>STORAGE_DIR\<close> depends on where
  the program is installed and is an argument.
\<close>

definition get_file_path :: "string \<Rightarrow> string \<Rightarrow> string" where
  "get_file_path storage_dir storage_key = storage_dir @ ''/'' @ storage_key"

subsection \<open>Values of the prediction service\<close>

text \<open>
  What \<^verbatim>\<open>prediction.output\<close> can be, as \<^verbatim>\<open>_extract_output_url\<close> tells the shapes
  apart: \<^verbatim>\<open>None\<close>, a \<^verbatim>\<open>str\<close>, an object with an attribute \<^verbatim>\<open>url\<close> (a string, as of
  the client library's file output), a list or tuple, a \<^verbatim>\<open>dict\<close> with string keys, and
  any other object, which has no \<^verbatim>\<open>url\<close>. \<open>PObj s\<close> carries what \<^verbatim>\<open>str\<close> renders it as.
\<close>

datatype pyval =
    PNone
  | PStr string
  | PFile string
  | PList "pyval list"
  | PDict "(string \<times> pyval) list"
  | PObj string

text \<open>
  \<^verbatim>\<open>str(val)\<close>. The rendering of a list, a dict or a file object is the library's and
  is the argument \<open>render\<close>.
\<close>

definition py_str :: "(pyval \<Rightarrow> string) \<Rightarrow> pyval \<Rightarrow> string" where
  "py_str render v =
     (case v of PStr s \<Rightarrow> s | PNone \<Rightarrow> ''None'' | PObj s \<Rightarrow> s | _ \<Rightarrow> render v)"

text \<open>
  A prediction as the backend reads it: \<^verbatim>\<open>id\<close>, \<^verbatim>\<open>status\<close>, \<^verbatim>\<open>error\<close> (as the
  f-string of the failure message renders it) and \<^verbatim>\<open>output\<close>.
\<close>

record prediction =
  pred_id :: string
  pred_status :: string
  pred_error :: string
  pred_output :: pyval

subsection \<open>enhance.py: extraction of the output URL\<close>

text \<open>The loop over a list output: the first item that is a string or has a \<^verbatim>\<open>url\<close>.\<close>

fun first_url_item :: "pyval list \<Rightarrow> string option" where
  "first_url_item [] = None"
| "first_url_item (PStr s # items) = Some s"
| "first_url_item (PFile u # items) = Some u"
| "first_url_item (_ # items) = first_url_item items"

text \<open>The loop over the known keys of a dict output, in the order of the tuple.\<close>

fun first_known_key :: "(pyval \<Rightarrow> string) \<Rightarrow> string list \<Rightarrow> (string \<times> pyval) list \<Rightarrow> string option" where
  "first_known_key render [] d = None"
| "first_known_key render (key # keys) d =
     (case map_of d key of
        Some val \<Rightarrow> Some (case val of PFile u \<Rightarrow> u | _ \<Rightarrow> py_str render val)
      | None \<Rightarrow> first_known_key render keys d)"

definition known_keys :: "string list" where
  "known_keys = [''video'', ''output'', ''enhanced_video'', ''result'']"

definition extract_output_url :: "(pyval \<Rightarrow> string) \<Rightarrow> prediction \<Rightarrow> string option" where
  "extract_output_url render prediction =
     (case pred_output prediction of
        PNone \<Rightarrow> None
      | PStr s \<Rightarrow> Some s
      | PFile u \<Rightarrow> Some u
      | PList items \<Rightarrow> first_url_item items
      | PDict d \<Rightarrow> first_known_key render known_keys d
      | PObj _ \<Rightarrow> None)"

subsection \<open>Exceptions and results\<close>

text \<open>
  The exceptions that reach \<^verbatim>\<open>except Exception\<close>, each with its message:
  \<^verbatim>\<open>EnhanceError\<close> of \<^verbatim>\<open>enhance.py\<close>, SQLite's integrity error, the HTTP client's status
  error, and any other exception a library raises.
\<close>

datatype exn =
    EnhanceError string
  | IntegrityError string
  | HTTPStatusError string
  | LibraryError string

fun str_exn :: "exn \<Rightarrow> string" where
  "str_exn (EnhanceError m) = m"
| "str_exn (IntegrityError m) = m"
| "str_exn (HTTPStatusError m) = m"
| "str_exn (LibraryError m) = m"

text \<open>
  A call returns a value, raises, or has not returned however long one waits
  (\<open>Blocked\<close>: only the wait on the prediction can do that).
\<close>

datatype 'a res = Ok 'a | Raise exn | Blocked

subsection \<open>database.py: the tables\<close>

text \<open>
  A row of \<^verbatim>\<open>uploads\<close> (the columns the job engine reads, and the size and type) and
  a row of \<^verbatim>\<open>jobs\<close>; a nullable column is an option, \<^verbatim>\<open>NULL\<close> is \<open>None\<close>.
\<close>

record upload =
  u_id :: string
  u_original_filename :: string
  u_storage_key :: string
  u_mime_type :: string
  u_file_size :: nat
  u_status :: string
  u_created_at :: string

record job =
  j_id :: string
  j_upload_id :: string
  j_model_name :: string
  j_replicate_id :: "string option"
  j_status :: string
  j_progress :: int
  j_output_key :: "string option"
  j_output_size :: "nat option"
  j_error_message :: "string option"
  j_created_at :: string
  j_started_at :: "string option"
  j_completed_at :: "string option"

text \<open>One entry of the \<^verbatim>\<open>fields\<close> dict of \<^verbatim>\<open>update_job\<close>: a column and its new value.\<close>

datatype field =
    Status string
  | Started_at string
  | Replicate_id string
  | Output_key string
  | Output_size nat
  | Progress int
  | Error_message string
  | Completed_at string

fun set_field :: "field \<Rightarrow> job \<Rightarrow> job" where
  "set_field (Status v) j = j\<lparr>j_status := v\<rparr>"
| "set_field (Started_at v) j = j\<lparr>j_started_at := Some v\<rparr>"
| "set_field (Replicate_id v) j = j\<lparr>j_replicate_id := Some v\<rparr>"
| "set_field (Output_key v) j = j\<lparr>j_output_key := Some v\<rparr>"
| "set_field (Output_size v) j = j\<lparr>j_output_size := Some v\<rparr>"
| "set_field (Progress v) j = j\<lparr>j_progress := v\<rparr>"
| "set_field (Error_message v) j = j\<lparr>j_error_message := Some v\<rparr>"
| "set_field (Completed_at v) j = j\<lparr>j_completed_at := Some v\<rparr>"

subsection \<open>The outside world and the state\<close>

type_synonym byte = "8 word"

text \<open>A value of the \<^verbatim>\<open>input\<close> dict of a submission: an open file, or a number.\<close>

datatype inval = FileHandle string | IntVal int

text \<open>The calls to the external services, as logged in the state.\<close>

datatype call =
    PredictionsCreate string "(string \<times> inval) list"
  | PredictionWait string
  | HttpGet string

text \<open>
  The answer of the HTTP server to one \<^verbatim>\<open>GET\<close>: the status code, the message of the
  error that \<^verbatim>\<open>raise_for_status\<close> raises for it, the chunks the body stream yields,
  and the exception that ends the stream after them when the connection breaks.
\<close>

record http_response =
  status_code :: nat
  status_error :: string
  chunks :: "byte list list"
  broken :: "exn option"

text \<open>
  \<open>create\<close> is \<^verbatim>\<open>replicate.predictions.create\<close> (with the opening of the file);
  \<open>reload n\<close> is what the \<open>n\<close>-th refresh of the prediction gives while waiting;
  \<open>http_get\<close> is the streamed \<^verbatim>\<open>GET\<close>; the rest are the clock at the three places
  it is read, \<^verbatim>\<open>STORAGE_DIR\<close> and \<^verbatim>\<open>REPLICATE_API_TOKEN\<close>.
\<close>

record ext =
  create :: "string \<Rightarrow> (string \<times> inval) list \<Rightarrow> exn + prediction"
  reload :: "nat \<Rightarrow> exn + prediction"
  http_get :: "string \<Rightarrow> exn + http_response"
  render :: "pyval \<Rightarrow> string"
  now_started :: string
  now_finished :: string
  utc_today :: date
  storage_dir :: string
  REPLICATE_API_TOKEN :: string

text \<open>
  The two tables, the files under the storage directory, the units handed to
  \<^verbatim>\<open>asyncio.create_task\<close> (job id, upload, model name), and the two logs.
\<close>

record state =
  uploads :: "string \<rightharpoonup> upload"
  jobs :: "string \<rightharpoonup> job"
  files :: "string \<rightharpoonup> byte list"
  tasks :: "(string \<times> upload \<times> string) list"
  writes :: "(string \<times> field list) list"
  calls :: "call list"

subsection \<open>database.py: the operations on jobs\<close>

definition get_upload :: "string \<Rightarrow> state \<Rightarrow> upload option" where
  "get_upload upload_id s = uploads s upload_id"

definition get_job :: "string \<Rightarrow> state \<Rightarrow> job option" where
  "get_job job_id s = jobs s job_id"

text \<open>
  \<^verbatim>\<open>INSERT INTO jobs (id, upload_id, model_name, status, created_at)\<close>: the other
  columns take their defaults; a second row with the same primary key is refused.
\<close>

definition insert_job :: "string \<Rightarrow> string \<Rightarrow> string \<Rightarrow> string \<Rightarrow> string \<Rightarrow> state \<Rightarrow> unit res \<times> state" where
  "insert_job job_id upload_id model_name status created_at s =
     (if jobs s job_id \<noteq> None
      then (Raise (IntegrityError ''UNIQUE constraint failed: jobs.id''), s)
      else (Ok (),
            s\<lparr>jobs := (jobs s)(job_id \<mapsto>
                 \<lparr>j_id = job_id, j_upload_id = upload_id, j_model_name = model_name,
                  j_replicate_id = None, j_status = status, j_progress = 0,
                  j_output_key = None, j_output_size = None, j_error_message = None,
                  j_created_at = created_at, j_started_at = None,
                  j_completed_at = None\<rparr>)\<rparr>))"

text \<open>
  \<^verbatim>\<open>UPDATE jobs SET ... WHERE id = :id\<close>: the named columns of the row with that id,
  nothing when there is no such row. The call is appended to the log \<open>writes\<close>.
\<close>

definition update_job :: "string \<Rightarrow> field list \<Rightarrow> state \<Rightarrow> state" where
  "update_job job_id fields' s =
     s\<lparr>jobs := (case jobs s job_id of
                  None \<Rightarrow> jobs s
                | Some j \<Rightarrow> (jobs s)(job_id \<mapsto> fold set_field fields' j)),
       writes := writes s @ [(job_id, fields')]\<rparr>"

subsection \<open>enhance.py: submission, wait and download\<close>

text \<open>\<^verbatim>\<open>replicate.predictions.create(model=..., input=...)\<close>, logged.\<close>

definition predictions_create :: "ext \<Rightarrow> string \<Rightarrow> (string \<times> inval) list \<Rightarrow> state \<Rightarrow> prediction res \<times> state" where
  "predictions_create x model input s =
     ((case create x model input of Inl e \<Rightarrow> Raise e | Inr p \<Rightarrow> Ok p),
      s\<lparr>calls := calls s @ [PredictionsCreate model input]\<rparr>)"

definition submit_prediction :: "ext \<Rightarrow> string \<Rightarrow> string \<Rightarrow> state \<Rightarrow> prediction res \<times> state" where
  "submit_prediction x model_name file_path s =
     (if contains ''real-esrgan'' model_name then
        predictions_create x model_name
          [(''video_path'', FileHandle file_path), (''scale'', IntVal DEFAULT_SCALE_FACTOR)] s
      else if contains ''topazlabs'' model_name then
        predictions_create x model_name [(''video'', FileHandle file_path)] s
      else
        predictions_create x model_name [(''video'', FileHandle file_path)] s)"

text \<open>
  The client library's \<^verbatim>\<open>prediction.wait()\<close>: while the status is none of
  \<^verbatim>\<open>succeeded\<close>, \<^verbatim>\<open>failed\<close>, \<^verbatim>\<open>canceled\<close>, sleep and reload. It takes no bound. The first
  argument counts the reloads looked at: \<open>Blocked\<close> says that the call has not returned
  after that many.
\<close>

definition terminal :: "string \<Rightarrow> bool" where
  "terminal st = (st = ''succeeded'' \<or> st = ''failed'' \<or> st = ''canceled'')"

fun prediction_wait :: "nat \<Rightarrow> (nat \<Rightarrow> exn + prediction) \<Rightarrow> nat \<Rightarrow> prediction \<Rightarrow> prediction res" where
  "prediction_wait 0 rl n p = (if terminal (pred_status p) then Ok p else Blocked)"
| "prediction_wait (Suc k) rl n p =
     (if terminal (pred_status p) then Ok p
      else (case rl n of
              Inl e \<Rightarrow> Raise e
            | Inr p' \<Rightarrow> prediction_wait k rl (Suc n) p'))"

definition wait_for_prediction :: "nat \<Rightarrow> ext \<Rightarrow> prediction \<Rightarrow> state \<Rightarrow> prediction res \<times> state" where
  "wait_for_prediction k x prediction s =
     (prediction_wait k (reload x) 0 prediction,
      s\<lparr>calls := calls s @ [PredictionWait (pred_id prediction)]\<rparr>)"

text \<open>
  \<^verbatim>\<open>resp.raise_for_status()\<close> of the HTTP client raises unless the status is a 2xx one.
\<close>

definition is_success :: "nat \<Rightarrow> bool" where
  "is_success code = (200 \<le> code \<and> code \<le> 299)"

text \<open>One turn of the loop over the chunks: write the chunk, add its length.\<close>

definition write_chunk :: "byte list \<Rightarrow> byte list \<times> nat \<Rightarrow> byte list \<times> nat" where
  "write_chunk chunk acc = (fst acc @ chunk, snd acc + length chunk)"

text \<open>
  \<^verbatim>\<open>_download_output\<close>. The destination is opened (and so created, empty) once the status
  has been checked; what was written before the stream broke stays in the file.
\<close>

definition download_output :: "ext \<Rightarrow> string \<Rightarrow> string \<Rightarrow> state \<Rightarrow> nat res \<times> state" where
  "download_output x url output_key s =
     (let dest = get_file_path (storage_dir x) output_key;
          s1 = s\<lparr>calls := calls s @ [HttpGet url]\<rparr>
      in case http_get x url of
           Inl e \<Rightarrow> (Raise e, s1)
         | Inr resp \<Rightarrow>
             (if \<not> is_success (status_code resp)
              then (Raise (HTTPStatusError (status_error resp)), s1)
              else
                (let written = fold write_chunk (chunks resp) ([], 0);
                     s2 = s1\<lparr>files := (files s1)(dest \<mapsto> fst written)\<rparr>
                 in (case broken resp of
                       Some e \<Rightarrow> (Raise e, s2)
                     | None \<Rightarrow> (Ok (snd written), s2)))))"

subsection \<open>enhance.py: the execution unit\<close>

text \<open>The body of the \<^verbatim>\<open>try\<close> block of \<^verbatim>\<open>_run_prediction\<close>.\<close>

definition run_prediction_try :: "nat \<Rightarrow> ext \<Rightarrow> string \<Rightarrow> upload \<Rightarrow> string \<Rightarrow> state \<Rightarrow> unit res \<times> state" where
  "run_prediction_try k x job_id upload model_name s =
     (let s1 = update_job job_id [Status ''processing'', Started_at (now_started x)] s;
          file_path = get_file_path (storage_dir x) (u_storage_key upload)
      in if files s1 file_path = None
         then (Raise (EnhanceError ''Source video not found in storage''), s1)
         else
           (case submit_prediction x model_name file_path s1 of
              (Raise e, s2) \<Rightarrow> (Raise e, s2)
            | (Blocked, s2) \<Rightarrow> (Blocked, s2)
            | (Ok prediction, s2) \<Rightarrow>
                (let replicate_id = pred_id prediction;
                     s3 = update_job job_id [Replicate_id replicate_id] s2
                 in (case wait_for_prediction k x prediction s3 of
                       (Raise e, s4) \<Rightarrow> (Raise e, s4)
                     | (Blocked, s4) \<Rightarrow> (Blocked, s4)
                     | (Ok result, s4) \<Rightarrow>
                         (if pred_status result = ''failed''
                          then (Raise (EnhanceError
                                  (''Replicate prediction failed: '' @ pred_error result)), s4)
                          else if pred_status result = ''canceled''
                          then (Raise (EnhanceError ''Prediction was canceled''), s4)
                          else
                            (case extract_output_url (render x) result of
                               None \<Rightarrow>
                                 (Raise (EnhanceError ''No output URL returned from Replicate''), s4)
                             | Some output_url \<Rightarrow>
                                 (if output_url = []
                                  then (Raise (EnhanceError
                                          ''No output URL returned from Replicate''), s4)
                                  else
                                    (let output_key =
                                           generate_output_key (utc_today x) job_id
                                             (''enhanced_'' @ u_original_filename upload)
                                     in (case download_output x output_url output_key s4 of
                                           (Raise e, s5) \<Rightarrow> (Raise e, s5)
                                         | (Blocked, s5) \<Rightarrow> (Blocked, s5)
                                         | (Ok output_size, s5) \<Rightarrow>
                                             (Ok (),
                                              update_job job_id
                                                [Status ''completed'', Output_key output_key,
                                                 Output_size output_size, Progress 100,
                                                 Completed_at (now_finished x)] s5))))))))))"

text \<open>
  \<^verbatim>\<open>_run_prediction\<close>: the \<^verbatim>\<open>try\<close> block and its handler. \<open>Ok ()\<close> is the unit having
  finished, \<open>Blocked\<close> the unit still waiting on the prediction.
\<close>

definition run_prediction :: "nat \<Rightarrow> ext \<Rightarrow> string \<Rightarrow> upload \<Rightarrow> string \<Rightarrow> state \<Rightarrow> unit res \<times> state" where
  "run_prediction k x job_id upload model_name s =
     (case run_prediction_try k x job_id upload model_name s of
        (Ok u, s') \<Rightarrow> (Ok (), s')
      | (Blocked, s') \<Rightarrow> (Blocked, s')
      | (Raise e, s') \<Rightarrow>
          (Ok (),
           update_job job_id
             [Status ''failed'', Error_message (str_exn e),
              Completed_at (now_finished x)] s'))"

subsection \<open>enhance.py: creating a job\<close>

text \<open>
  \<^verbatim>\<open>create_enhance_job\<close> creates the task of the unit and only then awaits the read of
  the record it returns, so the unit may already have run some of its steps when the
  record is read. \<open>unit_progress seen k\<close> is the store as that read can find it: the
  first \<open>seen\<close> of the \<^verbatim>\<open>update_job\<close> calls of the unit's run (the run as far as \<open>k\<close>
  reloads of its wait show it) are committed. With \<open>seen = 0\<close> the read comes first.
\<close>

definition unit_progress :: "nat \<Rightarrow> nat \<Rightarrow> ext \<Rightarrow> string \<Rightarrow> upload \<Rightarrow> string \<Rightarrow> state \<Rightarrow> state" where
  "unit_progress seen k x job_id upload model_name s =
     fold (\<lambda>w. update_job (fst w) (snd w))
       (take seen (drop (length (writes s))
          (writes (snd (run_prediction k x job_id upload model_name s))))) s"

text \<open>
  \<^verbatim>\<open>create_enhance_job\<close>. \<open>uuid_hex\<close> is \<^verbatim>\<open>uuid.uuid4().hex\<close> and \<open>now\<close> the clock of
  the call; \<open>seen\<close> and \<open>k\<close> say how far the scheduled unit has got when the record is
  read back. \<^verbatim>\<open>asyncio.create_task\<close> appends the unit to \<open>tasks\<close>. The state returned is
  the one the unit starts from: the unit's own steps are those of \<open>run_prediction\<close> and
  are not part of it.
\<close>

definition create_enhance_job :: "ext \<Rightarrow> string \<Rightarrow> string \<Rightarrow> nat \<Rightarrow> nat \<Rightarrow> string \<Rightarrow> string option \<Rightarrow> state \<Rightarrow> job option res \<times> state" where
  "create_enhance_job x uuid_hex now seen k upload_id model_key s =
     (case get_upload upload_id s of
        None \<Rightarrow> (Raise (EnhanceError ''Upload not found''), s)
      | Some upload \<Rightarrow>
          (if u_status upload \<noteq> ''uploaded''
           then (Raise (EnhanceError ''Upload is not ready for enhancement''), s)
           else if REPLICATE_API_TOKEN x = []
           then (Raise (EnhanceError
                   ''REPLICATE_API_TOKEN not set. Export it to enable AI enhancement.''), s)
           else
             (let model_key' = (case model_key of
                                  None \<Rightarrow> DEFAULT_ENHANCE_MODEL
                                | Some k' \<Rightarrow> (if k' = [] then DEFAULT_ENHANCE_MODEL else k'));
                  model_name = map_of REPLICATE_MODELS model_key'
              in (case model_name of
                    None \<Rightarrow>
                      (Raise (EnhanceError (''Unknown model: '' @ model_key' @ ''. Available: '' @
                         repr_str_list (map fst REPLICATE_MODELS))), s)
                  | Some model_name \<Rightarrow>
                      (if model_name = []
                       then (Raise (EnhanceError
                               (''Unknown model: '' @ model_key' @ ''. Available: '' @
                                repr_str_list (map fst REPLICATE_MODELS))), s)
                       else
                         (let job_id = ''job_'' @ take 12 uuid_hex
                          in (case insert_job job_id upload_id model_name ''pending'' now s of
                                (Raise e, s1) \<Rightarrow> (Raise e, s1)
                              | (Blocked, s1) \<Rightarrow> (Blocked, s1)
                              | (Ok u, s1) \<Rightarrow>
                                  (let s2 = s1\<lparr>tasks := tasks s1 @
                                                [(job_id, upload, model_name)]\<rparr>
                                   in (Ok (get_job job_id
                                             (unit_progress seen k x job_id upload
                                                model_name s2)),
                                       s2)))))))))"

subsection \<open>Reading the logs\<close>


text \<open>
  The values an \<^verbatim>\<open>update_job\<close> call writes to \<^verbatim>\<open>status\<close>; the status values written
  for one job by a list of calls, in order; the calls made between two states.
\<close>

fun statuses :: "field list \<Rightarrow> string list" where
  "statuses [] = []"
| "statuses (Status v # fs) = v # statuses fs"
| "statuses (f # fs) = statuses fs"

definition status_writes :: "string \<Rightarrow> (string \<times> field list) list \<Rightarrow> string list" where
  "status_writes job_id ws =
     concat (map (\<lambda>w. statuses (snd w)) (filter (\<lambda>w. fst w = job_id) ws))"

definition new_writes :: "state \<Rightarrow> state \<Rightarrow> (string \<times> field list) list" where
  "new_writes s s' = drop (length (writes s)) (writes s')"

fun is_output_key :: "field \<Rightarrow> bool" where
  "is_output_key (Output_key v) = True"
| "is_output_key f = False"

fun is_error_message :: "field \<Rightarrow> bool" where
  "is_error_message (Error_message v) = True"
| "is_error_message f = False"

text \<open>The place of a status along pending, processing, then the terminal states.\<close>

definition rank :: "string \<Rightarrow> nat" where
  "rank st = (if st = ''pending'' then 0 else if st = ''processing'' then 1 else 2)"

subsection \<open>A concrete scenario\<close>

text \<open>
  One uploaded clip, its file in storage, and a world in which the prediction is
  accepted, reports \<^verbatim>\<open>processing\<close> twice and then succeeds with a plain URL, and the
  download delivers three bytes in two chunks. The variants change one answer each.
\<close>

definition demo_upload :: upload where
  "demo_upload =
     \<lparr>u_id = ''upl_1'', u_original_filename = ''clip.mp4'',
      u_storage_key = ''uploads/2024/03/07/upl_1_clip.mp4'', u_mime_type = ''video/mp4'',
      u_file_size = 3, u_status = ''uploaded'', u_created_at = ''2024-03-07T10:00:00+00:00''\<rparr>"

definition demo_state :: state where
  "demo_state =
     \<lparr>uploads = [''upl_1'' \<mapsto> demo_upload], jobs = Map.empty,
      files = [''/srv/storage/uploads/2024/03/07/upl_1_clip.mp4'' \<mapsto> [1, 2, 3]],
      tasks = [], writes = [], calls = []\<rparr>"

definition demo_prediction :: prediction where
  "demo_prediction =
     \<lparr>pred_id = ''pred_1'', pred_status = ''starting'', pred_error = [], pred_output = PNone\<rparr>"

definition demo_ext :: ext where
  "demo_ext =
     \<lparr>create = (\<lambda>model input. Inr demo_prediction),
      reload = (\<lambda>n. Inr (if n < 2 then demo_prediction\<lparr>pred_status := ''processing''\<rparr>
                          else demo_prediction\<lparr>pred_status := ''succeeded'',
                                 pred_output := PStr ''https://replicate.delivery/out.mp4''\<rparr>)),
      http_get = (\<lambda>url. Inr \<lparr>status_code = 200, status_error = [],
                               chunks = [[1, 2], [3]], broken = None\<rparr>),
      render = (\<lambda>v. []),
      now_started = ''2024-03-07T10:00:01+00:00'',
      now_finished = ''2024-03-07T10:05:00+00:00'',
      utc_today = \<lparr>year = 2024, month = 3, day = 7\<rparr>,
      storage_dir = ''/srv/storage'',
      REPLICATE_API_TOKEN = ''r8_token''\<rparr>"

definition demo_job :: job where
  "demo_job =
     \<lparr>j_id = ''job_0123456789ab'', j_upload_id = ''upl_1'',
      j_model_name = ''lucataco/real-esrgan-video'', j_replicate_id = None,
      j_status = ''pending'', j_progress = 0, j_output_key = None, j_output_size = None,
      j_error_message = None, j_created_at = ''2024-03-07T10:00:00+00:00'',
      j_started_at = None, j_completed_at = None\<rparr>"

text \<open>The state after the job has been created for the clip.\<close>

definition demo_created :: state where
  "demo_created =
     demo_state\<lparr>jobs := [''job_0123456789ab'' \<mapsto> demo_job],
                tasks := [(''job_0123456789ab'', demo_upload, ''lucataco/real-esrgan-video'')]\<rparr>"

text \<open>The prediction never leaves \<^verbatim>\<open>processing\<close>.\<close>

definition stuck_ext :: ext where
  "stuck_ext = demo_ext\<lparr>reload := (\<lambda>n. Inr (demo_prediction\<lparr>pred_status := ''processing''\<rparr>))\<rparr>"

text \<open>The server answers 200 with an empty body.\<close>

definition empty_body_ext :: ext where
  "empty_body_ext =
     demo_ext\<lparr>http_get := (\<lambda>url. Inr \<lparr>status_code = 200, status_error = [],
                                       chunks = [], broken = None\<rparr>)\<rparr>"

text \<open>The prediction succeeds at once, with no output.\<close>

definition no_output_ext :: ext where
  "no_output_ext = demo_ext\<lparr>reload := (\<lambda>n. Inr (demo_prediction\<lparr>pred_status := ''succeeded''\<rparr>))\<rparr>"

text \<open>The state after the job has been created, with the source file gone.\<close>

definition missing_state :: state where
  "missing_state = demo_created\<lparr>files := Map.empty\<rparr>"

text \<open>The server answers 404; the connection breaks after the first chunk.\<close>

definition http_error_ext :: ext where
  "http_error_ext =
     demo_ext\<lparr>http_get := (\<lambda>url. Inr \<lparr>status_code = 404,
                                       status_error = ''Client error 404 Not Found'',
                                       chunks = [], broken = None\<rparr>)\<rparr>"

definition broken_stream_ext :: ext where
  "broken_stream_ext =
     demo_ext\<lparr>http_get := (\<lambda>url. Inr \<lparr>status_code = 200, status_error = [],
                                       chunks = [[1, 2]],
                                       broken = Some (LibraryError ''peer closed connection'')\<rparr>)\<rparr>"


section \<open>Properties\<close>

subsection \<open>Strings and storage keys\<close>

lemma contains_iff: "contains sub s \<longleftrightarrow> (\<exists>p q. s = p @ sub @ q)"
proof (induction s)
  case Nil
  then show ?case by auto
next
  case (Cons c cs)
  have "take (length sub) (c # cs) = sub \<longleftrightarrow> (\<exists>q. c # cs = sub @ q)"
    by (metis append_eq_conv_conj)
  moreover have "(\<exists>p q. c # cs = p @ sub @ q) \<longleftrightarrow>
      (\<exists>q. c # cs = sub @ q) \<or> (\<exists>p q. cs = p @ sub @ q)"
    (is "?L \<longleftrightarrow> ?A \<or> ?B")
  proof
    assume ?L
    then obtain p q where pq: "c # cs = p @ sub @ q" by blast
    show "?A \<or> ?B"
    proof (cases p)
      case Nil
      with pq show ?thesis by auto
    next
      case (Cons a p')
      with pq have "cs = p' @ sub @ q" by simp
      then show ?thesis by blast
    qed
  next
    assume "?A \<or> ?B"
    then show ?L
    proof
      assume ?A
      then obtain q where "c # cs = [] @ sub @ q" by auto
      then show ?L by blast
    next
      assume ?B
      then obtain p q where "cs = p @ sub @ q" by blast
      then have "c # cs = (c # p) @ sub @ q" by simp
      then show ?L by blast
    qed
  qed
  ultimately show ?case using Cons.IH by simp
qed

lemma contains_mid: "contains sub (p @ sub @ q)"
  using contains_iff by blast

lemma safe_name_id: "\<forall>c\<in>set f. isalnum c \<or> c \<in> set ''._-'' \<Longrightarrow> safe_name f = f"
  unfolding safe_name_def by (induction f) auto

text \<open>
  C7 (as amended). The output key is a function of the date of the call, the job id and
  the file name: it is \<^verbatim>\<open>outputs/YYYY/MM/DD/\<close>, the job id, an underscore and the file
  name with every character other than an alphanumeric one, a dot, an underscore or a
  hyphen replaced by an underscore. For the name \<^verbatim>\<open>enhanced_\<close> + original that the
  execution unit passes, the key contains the job id and \<^verbatim>\<open>enhanced_\<close> followed by the
  sanitised original name, which has the length of the original and is the original itself
  when the original has only characters that are kept.
\<close>

theorem C7_output_key:
  "generate_output_key now job_id (''enhanced_'' @ filename) =
     ''outputs/'' @ str_nat (year now) @ ''/'' @ fmt_02d (month now) @ ''/'' @
     fmt_02d (day now) @ ''/'' @ job_id @ ''_enhanced_'' @ safe_name filename
   \<and> contains job_id (generate_output_key now job_id (''enhanced_'' @ filename))
   \<and> contains (''enhanced_'' @ safe_name filename)
        (generate_output_key now job_id (''enhanced_'' @ filename))
   \<and> length (safe_name filename) = length filename
   \<and> ((\<forall>c\<in>set filename. isalnum c \<or> c \<in> set ''._-'') \<longrightarrow>
        contains (''enhanced_'' @ filename)
          (generate_output_key now job_id (''enhanced_'' @ filename)))"
proof -
  let ?d = "''outputs/'' @ str_nat (year now) @ ''/'' @ fmt_02d (month now) @ ''/'' @
     fmt_02d (day now) @ ''/''"
  have key: "generate_output_key now job_id (''enhanced_'' @ filename) =
      ?d @ job_id @ ''_'' @ ''enhanced_'' @ safe_name filename"
    by (simp add: generate_output_key_def safe_name_def isalnum_def)
  have c1: "contains job_id (generate_output_key now job_id (''enhanced_'' @ filename))"
    unfolding key by (rule contains_mid)
  have "?d @ job_id @ ''_'' @ ''enhanced_'' @ safe_name filename =
        (?d @ job_id @ ''_'') @ (''enhanced_'' @ safe_name filename) @ []"
    by simp
  then have c2: "contains (''enhanced_'' @ safe_name filename)
        (generate_output_key now job_id (''enhanced_'' @ filename))"
    unfolding key using contains_mid by metis
  have c3: "length (safe_name filename) = length filename"
    by (simp add: safe_name_def)
  from key c1 c2 c3 show ?thesis
    using safe_name_id[of filename] by auto
qed

theorem C7_output_key_witness:
  "generate_output_key \<lparr>year = 2024, month = 3, day = 7\<rparr> ''job_0123456789ab''
       ''enhanced_clip.mp4''
     = ''outputs/2024/03/07/job_0123456789ab_enhanced_clip.mp4''
   \<and> contains ''enhanced_clip.mp4''
        (generate_output_key \<lparr>year = 2024, month = 3, day = 7\<rparr> ''job_0123456789ab''
           ''enhanced_clip.mp4'')"
  using C7_output_key[of "\<lparr>year = 2024, month = 3, day = 7\<rparr>" "''job_0123456789ab''"
      "''clip.mp4''"]
  by (simp add: str_nat.simps fmt_02d_def safe_name_def isalnum_def digit_char_def)

text \<open>
  C7 as stated fails twice: the same job id and file name give different keys on
  different days, and a file name with a space does not occur in its key.
\<close>

theorem C7_counterexample:
  "generate_output_key \<lparr>year = 2024, month = 3, day = 7\<rparr> ''job_0123456789ab''
       ''enhanced_clip.mp4''
     \<noteq> generate_output_key \<lparr>year = 2024, month = 3, day = 8\<rparr> ''job_0123456789ab''
         ''enhanced_clip.mp4''
   \<and> \<not> contains (''enhanced_'' @ ''my clip.mp4'')
         (generate_output_key \<lparr>year = 2024, month = 3, day = 7\<rparr> ''job_0123456789ab''
            (''enhanced_'' @ ''my clip.mp4''))"
  by (simp add: generate_output_key_def str_nat.simps fmt_02d_def safe_name_def isalnum_def
      digit_char_def)

subsection \<open>Submission input\<close>

text \<open>
  C9. The input of a submission depends on the model name through a substring test only:
  a name containing \<^verbatim>\<open>real-esrgan\<close> is submitted with the file under \<^verbatim>\<open>video_path\<close>
  and \<^verbatim>\<open>scale\<close> set to the default scale factor (2); every other name, whether it contains
  \<^verbatim>\<open>topazlabs\<close> or matches no family, is submitted with the file under \<^verbatim>\<open>video\<close> alone.
\<close>

theorem C9_submit_input_shape:
  "(contains ''real-esrgan'' model_name \<longrightarrow>
      submit_prediction x model_name file_path s =
        predictions_create x model_name
          [(''video_path'', FileHandle file_path), (''scale'', IntVal DEFAULT_SCALE_FACTOR)] s)
   \<and> (\<not> contains ''real-esrgan'' model_name \<longrightarrow>
      submit_prediction x model_name file_path s =
        predictions_create x model_name [(''video'', FileHandle file_path)] s)
   \<and> calls (snd (submit_prediction x model_name file_path s)) =
       calls s @ [PredictionsCreate model_name
         (if contains ''real-esrgan'' model_name
          then [(''video_path'', FileHandle file_path), (''scale'', IntVal 2)]
          else [(''video'', FileHandle file_path)])]"
  by (simp add: submit_prediction_def predictions_create_def DEFAULT_SCALE_FACTOR_def)

theorem C9_submit_input_shape_witness:
  "calls (snd (submit_prediction demo_ext ''lucataco/real-esrgan-video'' ''/srv/a.mp4''
       demo_state)) =
     [PredictionsCreate ''lucataco/real-esrgan-video''
        [(''video_path'', FileHandle ''/srv/a.mp4''), (''scale'', IntVal 2)]]
   \<and> calls (snd (submit_prediction demo_ext ''topazlabs/video-upscale'' ''/srv/a.mp4''
       demo_state)) =
     [PredictionsCreate ''topazlabs/video-upscale'' [(''video'', FileHandle ''/srv/a.mp4'')]]
   \<and> calls (snd (submit_prediction demo_ext ''acme/denoise'' ''/srv/a.mp4'' demo_state)) =
     [PredictionsCreate ''acme/denoise'' [(''video'', FileHandle ''/srv/a.mp4'')]]"
  using C9_submit_input_shape[of "''lucataco/real-esrgan-video''" demo_ext "''/srv/a.mp4''"
      demo_state, THEN conjunct2, THEN conjunct2]
    C9_submit_input_shape[of "''topazlabs/video-upscale''" demo_ext "''/srv/a.mp4''"
      demo_state, THEN conjunct2, THEN conjunct2]
    C9_submit_input_shape[of "''acme/denoise''" demo_ext "''/srv/a.mp4''"
      demo_state, THEN conjunct2, THEN conjunct2]
  by (simp add: demo_state_def)

subsection \<open>Projections of the operations\<close>

lemma fst_submit_prediction:
  "fst (submit_prediction x m fp s) =
     (case create x m (if contains ''real-esrgan'' m
                       then [(''video_path'', FileHandle fp), (''scale'', IntVal DEFAULT_SCALE_FACTOR)]
                       else [(''video'', FileHandle fp)]) of
        Inl e \<Rightarrow> Raise e | Inr p \<Rightarrow> Ok p)"
  by (simp add: submit_prediction_def predictions_create_def)

lemma snd_submit_prediction:
  "snd (submit_prediction x m fp s) =
     s\<lparr>calls := calls s @ [PredictionsCreate m
        (if contains ''real-esrgan'' m
         then [(''video_path'', FileHandle fp), (''scale'', IntVal DEFAULT_SCALE_FACTOR)]
         else [(''video'', FileHandle fp)])]\<rparr>"
  by (simp add: submit_prediction_def predictions_create_def)

lemma submit_not_Blocked: "fst (submit_prediction x m fp s) \<noteq> Blocked"
  by (simp add: fst_submit_prediction split: sum.splits)

lemma fold_write_chunk:
  "fold write_chunk cs acc = (fst acc @ concat cs, snd acc + length (concat cs))"
  by (induction cs arbitrary: acc) (simp_all add: write_chunk_def)

lemma fst_download_output:
  "fst (download_output x url key s) =
     (case http_get x url of
        Inl e \<Rightarrow> Raise e
      | Inr resp \<Rightarrow>
          (if \<not> is_success (status_code resp) then Raise (HTTPStatusError (status_error resp))
           else (case broken resp of
                   Some e \<Rightarrow> Raise e
                 | None \<Rightarrow> Ok (length (concat (chunks resp))))))"
  by (simp add: download_output_def Let_def fold_write_chunk split: sum.splits option.splits)

lemma download_not_Blocked: "fst (download_output x url key s) \<noteq> Blocked"
  by (simp add: fst_download_output split: sum.splits option.splits)

lemma writes_update_job [simp]: "writes (update_job jid fs s) = writes s @ [(jid, fs)]"
  by (simp add: update_job_def)

lemma calls_update_job [simp]: "calls (update_job jid fs s) = calls s"
  by (simp add: update_job_def)

lemma files_update_job [simp]: "files (update_job jid fs s) = files s"
  by (simp add: update_job_def)

lemma jobs_update_job:
  "jobs (update_job jid fs s) =
     (case jobs s jid of None \<Rightarrow> jobs s | Some j \<Rightarrow> (jobs s)(jid \<mapsto> fold set_field fs j))"
  by (simp add: update_job_def)

lemma writes_submit [simp]: "writes (snd (submit_prediction x m fp s)) = writes s"
  by (simp add: snd_submit_prediction)

lemma jobs_submit [simp]: "jobs (snd (submit_prediction x m fp s)) = jobs s"
  by (simp add: snd_submit_prediction)

lemma files_submit [simp]: "files (snd (submit_prediction x m fp s)) = files s"
  by (simp add: snd_submit_prediction)

lemma fst_wait [simp]:
  "fst (wait_for_prediction k x p s) = prediction_wait k (reload x) 0 p"
  by (simp add: wait_for_prediction_def)

lemma writes_wait [simp]: "writes (snd (wait_for_prediction k x p s)) = writes s"
  by (simp add: wait_for_prediction_def)

lemma jobs_wait [simp]: "jobs (snd (wait_for_prediction k x p s)) = jobs s"
  by (simp add: wait_for_prediction_def)

lemma files_wait [simp]: "files (snd (wait_for_prediction k x p s)) = files s"
  by (simp add: wait_for_prediction_def)

lemma calls_wait [simp]:
  "calls (snd (wait_for_prediction k x p s)) = calls s @ [PredictionWait (pred_id p)]"
  by (simp add: wait_for_prediction_def)

lemma writes_download [simp]: "writes (snd (download_output x url key s)) = writes s"
  by (simp add: download_output_def Let_def split: sum.splits option.splits)

lemma jobs_download [simp]: "jobs (snd (download_output x url key s)) = jobs s"
  by (simp add: download_output_def Let_def split: sum.splits option.splits)

lemma calls_download [simp]:
  "calls (snd (download_output x url key s)) = calls s @ [HttpGet url]"
  by (simp add: download_output_def Let_def split: sum.splits option.splits)

subsection \<open>Extraction of the output URL\<close>










subsection \<open>The writes of the execution unit\<close>

text \<open>
  Every run of the unit, finished or still waiting, has made one of four sequences of
  \<^verbatim>\<open>update_job\<close> calls, all on its own job, and the row of the job is the old row with
  the fields of those calls set in order.
\<close>

lemma run_prediction_try_writes:
  fixes k x jid up m s
  defines "r \<equiv> run_prediction_try k x jid up m s"
    and "P \<equiv> [Status ''processing'', Started_at (now_started x)]"
  shows
   "(\<exists>e. fst r = Raise e \<and> writes (snd r) = writes s @ [(jid, P)] \<and>
         jobs (snd r) = (case jobs s jid of None \<Rightarrow> jobs s
            | Some j \<Rightarrow> (jobs s)(jid \<mapsto> fold set_field P j))) \<or>
    (\<exists>rid. (fst r = Blocked \<or> (\<exists>e. fst r = Raise e)) \<and>
         writes (snd r) = writes s @ [(jid, P), (jid, [Replicate_id rid])] \<and>
         jobs (snd r) = (case jobs s jid of None \<Rightarrow> jobs s
            | Some j \<Rightarrow> (jobs s)(jid \<mapsto> fold set_field (P @ [Replicate_id rid]) j))) \<or>
    (\<exists>rid key n. fst r = Ok () \<and>
         writes (snd r) = writes s @ [(jid, P), (jid, [Replicate_id rid]),
            (jid, [Status ''completed'', Output_key key, Output_size n, Progress 100,
                 Completed_at (now_finished x)])] \<and>
         jobs (snd r) = (case jobs s jid of None \<Rightarrow> jobs s
            | Some j \<Rightarrow> (jobs s)(jid \<mapsto> fold set_field (P @ [Replicate_id rid] @
               [Status ''completed'', Output_key key, Output_size n, Progress 100,
                 Completed_at (now_finished x)]) j)))"
  unfolding r_def P_def run_prediction_try_def Let_def case_prod_beta
  by (auto split: res.splits option.splits
       simp: jobs_update_job submit_not_Blocked download_not_Blocked)

lemma run_prediction_writes:
  fixes k x jid up m s
  defines "r \<equiv> run_prediction k x jid up m s"
    and "P \<equiv> [Status ''processing'', Started_at (now_started x)]"
  shows
   "(\<exists>e. fst r = Ok () \<and>
         writes (snd r) = writes s @ [(jid, P),
            (jid, [Status ''failed'', Error_message e, Completed_at (now_finished x)])] \<and>
         jobs (snd r) = (case jobs s jid of None \<Rightarrow> jobs s
            | Some j \<Rightarrow> (jobs s)(jid \<mapsto> fold set_field (P @
                [Status ''failed'', Error_message e, Completed_at (now_finished x)]) j))) \<or>
    (\<exists>rid. fst r = Blocked \<and>
         writes (snd r) = writes s @ [(jid, P), (jid, [Replicate_id rid])] \<and>
         jobs (snd r) = (case jobs s jid of None \<Rightarrow> jobs s
            | Some j \<Rightarrow> (jobs s)(jid \<mapsto> fold set_field (P @ [Replicate_id rid]) j))) \<or>
    (\<exists>rid e. fst r = Ok () \<and>
         writes (snd r) = writes s @ [(jid, P), (jid, [Replicate_id rid]),
            (jid, [Status ''failed'', Error_message e, Completed_at (now_finished x)])] \<and>
         jobs (snd r) = (case jobs s jid of None \<Rightarrow> jobs s
            | Some j \<Rightarrow> (jobs s)(jid \<mapsto> fold set_field (P @ [Replicate_id rid] @
                [Status ''failed'', Error_message e, Completed_at (now_finished x)]) j))) \<or>
    (\<exists>rid key n. fst r = Ok () \<and>
         writes (snd r) = writes s @ [(jid, P), (jid, [Replicate_id rid]),
            (jid, [Status ''completed'', Output_key key, Output_size n, Progress 100,
                 Completed_at (now_finished x)])] \<and>
         jobs (snd r) = (case jobs s jid of None \<Rightarrow> jobs s
            | Some j \<Rightarrow> (jobs s)(jid \<mapsto> fold set_field (P @ [Replicate_id rid] @
               [Status ''completed'', Output_key key, Output_size n, Progress 100,
                 Completed_at (now_finished x)]) j)))"
proof -
  let ?t = "run_prediction_try k x jid up m s"
  have r: "r = (case fst ?t of
        Ok u \<Rightarrow> (Ok (), snd ?t)
      | Blocked \<Rightarrow> (Blocked, snd ?t)
      | Raise e \<Rightarrow> (Ok (), update_job jid
            [Status ''failed'', Error_message (str_exn e), Completed_at (now_finished x)]
            (snd ?t)))"
    by (simp add: r_def run_prediction_def case_prod_beta)
  from run_prediction_try_writes[of k x jid up m s]
  consider (a) e where "fst ?t = Raise e" "writes (snd ?t) = writes s @ [(jid, P)]"
      "jobs (snd ?t) = (case jobs s jid of None \<Rightarrow> jobs s
            | Some j \<Rightarrow> (jobs s)(jid \<mapsto> fold set_field P j))"
    | (b) rid where "fst ?t = Blocked"
      "writes (snd ?t) = writes s @ [(jid, P), (jid, [Replicate_id rid])]"
      "jobs (snd ?t) = (case jobs s jid of None \<Rightarrow> jobs s
            | Some j \<Rightarrow> (jobs s)(jid \<mapsto> fold set_field (P @ [Replicate_id rid]) j))"
    | (c) rid e where "fst ?t = Raise e"
      "writes (snd ?t) = writes s @ [(jid, P), (jid, [Replicate_id rid])]"
      "jobs (snd ?t) = (case jobs s jid of None \<Rightarrow> jobs s
            | Some j \<Rightarrow> (jobs s)(jid \<mapsto> fold set_field (P @ [Replicate_id rid]) j))"
    | (d) rid key n where "fst ?t = Ok ()"
      "writes (snd ?t) = writes s @ [(jid, P), (jid, [Replicate_id rid]),
            (jid, [Status ''completed'', Output_key key, Output_size n, Progress 100,
                 Completed_at (now_finished x)])]"
      "jobs (snd ?t) = (case jobs s jid of None \<Rightarrow> jobs s
            | Some j \<Rightarrow> (jobs s)(jid \<mapsto> fold set_field (P @ [Replicate_id rid] @
               [Status ''completed'', Output_key key, Output_size n, Progress 100,
                 Completed_at (now_finished x)]) j))"
    unfolding P_def by blast
  then show ?thesis
  proof cases
    case a
    then have "fst r = Ok () \<and>
         writes (snd r) = writes s @ [(jid, P),
            (jid, [Status ''failed'', Error_message (str_exn e), Completed_at (now_finished x)])] \<and>
         jobs (snd r) = (case jobs s jid of None \<Rightarrow> jobs s
            | Some j \<Rightarrow> (jobs s)(jid \<mapsto> fold set_field (P @
                [Status ''failed'', Error_message (str_exn e), Completed_at (now_finished x)]) j))"
      by (simp add: r jobs_update_job split: option.splits)
    then show ?thesis by blast
  next
    case b
    then have "fst r = Blocked \<and>
         writes (snd r) = writes s @ [(jid, P), (jid, [Replicate_id rid])] \<and>
         jobs (snd r) = (case jobs s jid of None \<Rightarrow> jobs s
            | Some j \<Rightarrow> (jobs s)(jid \<mapsto> fold set_field (P @ [Replicate_id rid]) j))"
      by (simp add: r)
    then show ?thesis by blast
  next
    case c
    then have "fst r = Ok () \<and>
         writes (snd r) = writes s @ [(jid, P), (jid, [Replicate_id rid]),
            (jid, [Status ''failed'', Error_message (str_exn e), Completed_at (now_finished x)])] \<and>
         jobs (snd r) = (case jobs s jid of None \<Rightarrow> jobs s
            | Some j \<Rightarrow> (jobs s)(jid \<mapsto> fold set_field (P @ [Replicate_id rid] @
                [Status ''failed'', Error_message (str_exn e), Completed_at (now_finished x)]) j))"
      by (simp add: r jobs_update_job split: option.splits)
    then show ?thesis by blast
  next
    case d
    then have "fst r = Ok () \<and>
         writes (snd r) = writes s @ [(jid, P), (jid, [Replicate_id rid]),
            (jid, [Status ''completed'', Output_key key, Output_size n, Progress 100,
                 Completed_at (now_finished x)])] \<and>
         jobs (snd r) = (case jobs s jid of None \<Rightarrow> jobs s
            | Some j \<Rightarrow> (jobs s)(jid \<mapsto> fold set_field (P @ [Replicate_id rid] @
               [Status ''completed'', Output_key key, Output_size n, Progress 100,
                 Completed_at (now_finished x)]) j))"
      by (simp add: r)
    then show ?thesis by blast
  qed
qed

lemma update_job_status:
  "jobs s jid = Some j \<Longrightarrow>
   \<exists>j'. jobs (update_job jid fs s) jid = Some j' \<and> j_status j' = last (j_status j # statuses fs)"
proof -
  have "j_status (fold set_field fs j) = last (j_status j # statuses fs)" for j
  proof (induction fs arbitrary: j)
    case Nil
    then show ?case by simp
  next
    case (Cons f fs)
    then show ?case by (cases f) simp_all
  qed
  then show "jobs s jid = Some j \<Longrightarrow> ?thesis"
    by (simp add: jobs_update_job)
qed

text \<open>
  C1. The status values that one run of the execution unit writes are processing, then
  nothing more (the unit is still waiting), completed or failed: never a value that comes
  earlier along pending, processing, terminal, and never completed or failed before
  processing. All writes go to the unit's own job, each write of \<^verbatim>\<open>update_job\<close> leaves the
  row at the last status it names, and a job that was pending ends at the last status
  written.
\<close>

theorem C1_status_moves_forward:
  "writes (snd (run_prediction k x job_id upload model_name s)) =
     writes s @ new_writes s (snd (run_prediction k x job_id upload model_name s))
   \<and> (\<forall>w\<in>set (new_writes s (snd (run_prediction k x job_id upload model_name s))).
        fst w = job_id)
   \<and> status_writes job_id (new_writes s (snd (run_prediction k x job_id upload model_name s)))
       \<in> {[''processing''], [''processing'', ''completed''], [''processing'', ''failed'']}
   \<and> sorted_wrt (\<lambda>a b. rank a < rank b)
        (''pending'' #
         status_writes job_id (new_writes s (snd (run_prediction k x job_id upload model_name s))))
   \<and> (fst (run_prediction k x job_id upload model_name s) = Ok () \<longrightarrow>
        status_writes job_id (new_writes s (snd (run_prediction k x job_id upload model_name s)))
          \<noteq> [''processing''])
   \<and> (\<forall>j. jobs s job_id = Some j \<longrightarrow>
        (\<exists>j'. jobs (snd (run_prediction k x job_id upload model_name s)) job_id = Some j' \<and>
              j_status j' = last (status_writes job_id
                (new_writes s (snd (run_prediction k x job_id upload model_name s))))))
   \<and> (\<forall>j fs t. jobs t job_id = Some j \<longrightarrow>
        (\<exists>j'. jobs (update_job job_id fs t) job_id = Some j' \<and>
              j_status j' = last (j_status j # statuses fs)))"
proof -
  let ?r = "run_prediction k x job_id upload model_name s"
  have upd: "\<forall>j fs t. jobs t job_id = Some j \<longrightarrow>
        (\<exists>j'. jobs (update_job job_id fs t) job_id = Some j' \<and>
              j_status j' = last (j_status j # statuses fs))"
    using update_job_status by blast
  from run_prediction_writes[of k x job_id upload model_name s]
  have "writes (snd ?r) = writes s @ new_writes s (snd ?r)
   \<and> (\<forall>w\<in>set (new_writes s (snd ?r)). fst w = job_id)
   \<and> status_writes job_id (new_writes s (snd ?r))
       \<in> {[''processing''], [''processing'', ''completed''], [''processing'', ''failed'']}
   \<and> sorted_wrt (\<lambda>a b. rank a < rank b) (''pending'' # status_writes job_id (new_writes s (snd ?r)))
   \<and> (fst ?r = Ok () \<longrightarrow> status_writes job_id (new_writes s (snd ?r)) \<noteq> [''processing''])
   \<and> (\<forall>j. jobs s job_id = Some j \<longrightarrow>
        (\<exists>j'. jobs (snd ?r) job_id = Some j' \<and>
              j_status j' = last (status_writes job_id (new_writes s (snd ?r)))))"
    by (elim disjE exE conjE) (simp_all add: new_writes_def status_writes_def rank_def)
  with upd show ?thesis by blast
qed

subsection \<open>The scenario, evaluated\<close>

lemma demo_run:
  "fst (run_prediction (Suc (Suc (Suc 0))) demo_ext ''job_0123456789ab'' demo_upload
          ''lucataco/real-esrgan-video'' demo_created) = Ok ()"
  "writes (snd (run_prediction (Suc (Suc (Suc 0))) demo_ext ''job_0123456789ab'' demo_upload
          ''lucataco/real-esrgan-video'' demo_created)) =
     [(''job_0123456789ab'', [Status ''processing'', Started_at ''2024-03-07T10:00:01+00:00'']),
      (''job_0123456789ab'', [Replicate_id ''pred_1'']),
      (''job_0123456789ab'',
       [Status ''completed'',
        Output_key ''outputs/2024/03/07/job_0123456789ab_enhanced_clip.mp4'',
        Output_size 3, Progress 100, Completed_at ''2024-03-07T10:05:00+00:00''])]"
  "jobs (snd (run_prediction (Suc (Suc (Suc 0))) demo_ext ''job_0123456789ab'' demo_upload
          ''lucataco/real-esrgan-video'' demo_created)) ''job_0123456789ab'' =
     Some (demo_job\<lparr>j_replicate_id := Some ''pred_1'', j_status := ''completed'',
             j_progress := 100,
             j_output_key := Some ''outputs/2024/03/07/job_0123456789ab_enhanced_clip.mp4'',
             j_output_size := Some 3,
             j_started_at := Some ''2024-03-07T10:00:01+00:00'',
             j_completed_at := Some ''2024-03-07T10:05:00+00:00''\<rparr>)"
  "calls (snd (run_prediction (Suc (Suc (Suc 0))) demo_ext ''job_0123456789ab'' demo_upload
          ''lucataco/real-esrgan-video'' demo_created)) =
     [PredictionsCreate ''lucataco/real-esrgan-video''
        [(''video_path'', FileHandle ''/srv/storage/uploads/2024/03/07/upl_1_clip.mp4''),
         (''scale'', IntVal 2)],
      PredictionWait ''pred_1'',
      HttpGet ''https://replicate.delivery/out.mp4'']"
  by (simp_all add: run_prediction_def run_prediction_try_def Let_def case_prod_beta
      demo_ext_def demo_created_def demo_state_def demo_upload_def demo_prediction_def
      demo_job_def get_file_path_def fst_submit_prediction snd_submit_prediction
      fst_download_output jobs_update_job terminal_def extract_output_url_def
      generate_output_key_def str_nat.simps fmt_02d_def safe_name_def isalnum_def
      digit_char_def DEFAULT_SCALE_FACTOR_def is_success_def)

theorem C1_status_moves_forward_witness:
  "fst (run_prediction (Suc (Suc (Suc 0))) demo_ext ''job_0123456789ab'' demo_upload
          ''lucataco/real-esrgan-video'' demo_created) = Ok ()
   \<and> jobs demo_created ''job_0123456789ab'' = Some demo_job
   \<and> status_writes ''job_0123456789ab'' (new_writes demo_created
        (snd (run_prediction (Suc (Suc (Suc 0))) demo_ext ''job_0123456789ab'' demo_upload
          ''lucataco/real-esrgan-video'' demo_created))) = [''processing'', ''completed'']
   \<and> (\<exists>j'. jobs (snd (run_prediction (Suc (Suc (Suc 0))) demo_ext ''job_0123456789ab''
                 demo_upload ''lucataco/real-esrgan-video'' demo_created))
               ''job_0123456789ab'' = Some j' \<and> j_status j' = ''completed'')"
proof -
  let ?r = "run_prediction (Suc (Suc (Suc 0))) demo_ext ''job_0123456789ab'' demo_upload
          ''lucataco/real-esrgan-video'' demo_created"
  have j: "jobs demo_created ''job_0123456789ab'' = Some demo_job"
    by (simp add: demo_created_def demo_state_def)
  have sw: "status_writes ''job_0123456789ab'' (new_writes demo_created (snd ?r)) =
      [''processing'', ''completed'']"
    by (simp add: demo_run new_writes_def status_writes_def)
      (simp add: demo_created_def demo_state_def)
  from C1_status_moves_forward[of "Suc (Suc (Suc 0))" demo_ext "''job_0123456789ab''"
      demo_upload "''lucataco/real-esrgan-video''" demo_created] j
  have "\<exists>j'. jobs (snd ?r) ''job_0123456789ab'' = Some j' \<and>
      j_status j' = last (status_writes ''job_0123456789ab'' (new_writes demo_created (snd ?r)))"
    by blast
  with sw j demo_run(1) show ?thesis by simp
qed

subsection \<open>Output key and error message\<close>

text \<open>
  C2. Among the writes of a run, a write sets \<^verbatim>\<open>output_key\<close> exactly when it writes
  the status completed, and then it is the write of status, \<^verbatim>\<open>output_key\<close>,
  \<^verbatim>\<open>output_size\<close>, progress 100 and \<^verbatim>\<open>completed_at\<close>, without \<^verbatim>\<open>error_message\<close>; a write
  sets \<^verbatim>\<open>error_message\<close> exactly when it writes the status failed, and then it is the
  write of status, \<^verbatim>\<open>error_message\<close> and \<^verbatim>\<open>completed_at\<close>, without \<^verbatim>\<open>output_key\<close>. So a
  job whose two columns were empty when its unit started has, once the unit has
  finished, status completed or failed, \<^verbatim>\<open>output_key\<close> set if and only if it is completed
  and \<^verbatim>\<open>error_message\<close> set if and only if it is failed.
\<close>

theorem C2_output_key_and_error_message:
  "(\<forall>w\<in>set (new_writes s (snd (run_prediction k x job_id upload model_name s))).
        (list_ex is_output_key (snd w) \<longleftrightarrow> ''completed'' \<in> set (statuses (snd w)))
      \<and> (list_ex is_error_message (snd w) \<longleftrightarrow> ''failed'' \<in> set (statuses (snd w)))
      \<and> (''completed'' \<in> set (statuses (snd w)) \<longrightarrow>
           (\<exists>key n. snd w = [Status ''completed'', Output_key key, Output_size n, Progress 100,
                            Completed_at (now_finished x)]))
      \<and> (''failed'' \<in> set (statuses (snd w)) \<longrightarrow>
           (\<exists>e. snd w = [Status ''failed'', Error_message e, Completed_at (now_finished x)])))
   \<and> (\<forall>j. fst (run_prediction k x job_id upload model_name s) = Ok () \<and>
          jobs s job_id = Some j \<and> j_output_key j = None \<and> j_error_message j = None \<longrightarrow>
        (\<exists>j'. jobs (snd (run_prediction k x job_id upload model_name s)) job_id = Some j'
            \<and> (j_status j' = ''completed'' \<or> j_status j' = ''failed'')
            \<and> (j_output_key j' \<noteq> None \<longleftrightarrow> j_status j' = ''completed'')
            \<and> (j_error_message j' \<noteq> None \<longleftrightarrow> j_status j' = ''failed'')
            \<and> (j_status j' = ''completed'' \<longrightarrow>
                 j_progress j' = 100 \<and> j_output_size j' \<noteq> None \<and> j_completed_at j' \<noteq> None)
            \<and> (j_status j' = ''failed'' \<longrightarrow> j_completed_at j' \<noteq> None)))"
proof -
  from run_prediction_writes[of k x job_id upload model_name s]
  show ?thesis
    by (elim disjE exE conjE) (simp_all add: new_writes_def)
qed

theorem C2_output_key_and_error_message_witness:
  "fst (run_prediction (Suc (Suc (Suc 0))) demo_ext ''job_0123456789ab'' demo_upload
          ''lucataco/real-esrgan-video'' demo_created) = Ok ()
   \<and> jobs demo_created ''job_0123456789ab'' = Some demo_job
   \<and> j_output_key demo_job = None \<and> j_error_message demo_job = None
   \<and> (\<exists>j'. jobs (snd (run_prediction (Suc (Suc (Suc 0))) demo_ext ''job_0123456789ab''
                 demo_upload ''lucataco/real-esrgan-video'' demo_created))
               ''job_0123456789ab'' = Some j'
          \<and> j_status j' = ''completed'' \<and> j_output_key j' \<noteq> None \<and> j_error_message j' = None)
   \<and> fst (run_prediction (Suc 0) no_output_ext ''job_0123456789ab'' demo_upload
          ''lucataco/real-esrgan-video'' demo_created) = Ok ()
   \<and> (\<exists>j'. jobs (snd (run_prediction (Suc 0) no_output_ext ''job_0123456789ab''
                 demo_upload ''lucataco/real-esrgan-video'' demo_created))
               ''job_0123456789ab'' = Some j'
          \<and> j_status j' = ''failed'' \<and> j_output_key j' = None \<and> j_error_message j' \<noteq> None)"
proof -
  let ?r = "run_prediction (Suc (Suc (Suc 0))) demo_ext ''job_0123456789ab'' demo_upload
          ''lucataco/real-esrgan-video'' demo_created"
  let ?f = "run_prediction (Suc 0) no_output_ext ''job_0123456789ab'' demo_upload
          ''lucataco/real-esrgan-video'' demo_created"
  have j: "jobs demo_created ''job_0123456789ab'' = Some demo_job"
    "j_output_key demo_job = None" "j_error_message demo_job = None"
    by (simp_all add: demo_created_def demo_state_def demo_job_def)
  have f: "fst ?f = Ok ()"
    "map_option j_status (jobs (snd ?f) ''job_0123456789ab'') = Some ''failed''"
    by (simp_all add: run_prediction_def run_prediction_try_def Let_def case_prod_beta
      no_output_ext_def demo_ext_def demo_created_def demo_state_def demo_upload_def
      demo_prediction_def demo_job_def get_file_path_def fst_submit_prediction
      jobs_update_job terminal_def extract_output_url_def)
  from C2_output_key_and_error_message[of demo_created "Suc (Suc (Suc 0))" demo_ext
      "''job_0123456789ab''" demo_upload "''lucataco/real-esrgan-video''"]
    j demo_run(1)
  obtain j1 where j1: "jobs (snd ?r) ''job_0123456789ab'' = Some j1"
    "j_output_key j1 \<noteq> None \<longleftrightarrow> j_status j1 = ''completed''"
    "j_error_message j1 \<noteq> None \<longleftrightarrow> j_status j1 = ''failed''"
    by blast
  from j1(1) demo_run(3) have "j_status j1 = ''completed''"
    by auto
  with j1 have r: "\<exists>j'. jobs (snd ?r) ''job_0123456789ab'' = Some j'
          \<and> j_status j' = ''completed'' \<and> j_output_key j' \<noteq> None \<and> j_error_message j' = None"
    by auto
  from C2_output_key_and_error_message[of demo_created "Suc 0" no_output_ext
      "''job_0123456789ab''" demo_upload "''lucataco/real-esrgan-video''"]
    j f(1)
  obtain j2 where j2: "jobs (snd ?f) ''job_0123456789ab'' = Some j2"
    "j_output_key j2 \<noteq> None \<longleftrightarrow> j_status j2 = ''completed''"
    "j_error_message j2 \<noteq> None \<longleftrightarrow> j_status j2 = ''failed''"
    by blast
  from j2(1) f(2) have "j_status j2 = ''failed''"
    by auto
  with j2 have "\<exists>j'. jobs (snd ?f) ''job_0123456789ab'' = Some j'
          \<and> j_status j' = ''failed'' \<and> j_output_key j' = None \<and> j_error_message j' \<noteq> None"
    by auto
  with r j demo_run(1) f(1) show ?thesis by simp
qed

subsection \<open>Missing source file\<close>

text \<open>
  C8. When the source file of the upload is not in storage as the unit starts, the unit
  writes processing, then failed with the message that the source video was not found,
  and finishes: no call to the prediction service or to the HTTP server is made, no file
  is written, and the job ends failed with that message.
\<close>

theorem C8_source_missing:
  assumes "files s (get_file_path (storage_dir x) (u_storage_key upload)) = None"
  shows "run_prediction k x job_id upload model_name s =
           (Ok (),
            update_job job_id
              [Status ''failed'', Error_message ''Source video not found in storage'',
               Completed_at (now_finished x)]
              (update_job job_id [Status ''processing'', Started_at (now_started x)] s))
         \<and> calls (snd (run_prediction k x job_id upload model_name s)) = calls s
         \<and> files (snd (run_prediction k x job_id upload model_name s)) = files s
         \<and> (\<forall>j. jobs s job_id = Some j \<longrightarrow>
              jobs (snd (run_prediction k x job_id upload model_name s)) job_id =
                Some (j\<lparr>j_status := ''failed'',
                        j_error_message := Some ''Source video not found in storage'',
                        j_started_at := Some (now_started x),
                        j_completed_at := Some (now_finished x)\<rparr>))"
  using assms
  by (simp add: run_prediction_def run_prediction_try_def Let_def jobs_update_job)

theorem C8_source_missing_witness:
  "files missing_state
     (get_file_path (storage_dir demo_ext) (u_storage_key demo_upload)) = None
   \<and> fst (run_prediction (Suc 0) demo_ext ''job_0123456789ab'' demo_upload
            ''lucataco/real-esrgan-video'' missing_state) = Ok ()
   \<and> calls (snd (run_prediction (Suc 0) demo_ext ''job_0123456789ab'' demo_upload
            ''lucataco/real-esrgan-video'' missing_state)) = []
   \<and> map_option (\<lambda>j. (j_status j, j_error_message j))
        (jobs (snd (run_prediction (Suc 0) demo_ext ''job_0123456789ab'' demo_upload
            ''lucataco/real-esrgan-video'' missing_state)) ''job_0123456789ab'') =
       Some (''failed'', Some ''Source video not found in storage'')"
proof -
  have m: "files missing_state
     (get_file_path (storage_dir demo_ext) (u_storage_key demo_upload)) = None"
    by (simp add: missing_state_def)
  have j: "jobs missing_state ''job_0123456789ab'' = Some demo_job"
    "calls missing_state = []"
    by (simp_all add: missing_state_def demo_created_def demo_state_def)
  from C8_source_missing[OF m, of "Suc 0" "''job_0123456789ab''" "''lucataco/real-esrgan-video''"]
    j m
  show ?thesis by (simp add: jobs_update_job)
qed

subsection \<open>Waiting for the prediction\<close>

lemma prediction_wait_stuck:
  "\<forall>i. \<exists>p'. rl i = Inr p' \<and> \<not> terminal (pred_status p') \<Longrightarrow>
   \<not> terminal (pred_status p) \<Longrightarrow> prediction_wait k rl n p = Blocked"
proof (induction k arbitrary: n p)
  case 0
  then show ?case by simp
next
  case (Suc k)
  from Suc.prems(1) obtain p' where p': "rl n = Inr p'" "\<not> terminal (pred_status p')"
    by blast
  with Suc show ?case by simp
qed

text \<open>
  The wait returns as soon as a reload raises or reports a terminal status: if that
  happens at reload \<open>i\<close>, looking at more than \<open>i\<close> reloads shows the call returned, and
  looking at still more changes nothing. The unit itself is blocked only while its wait is.
\<close>

lemma prediction_wait_returns:
  "(\<exists>e. rl (n + i) = Inl e) \<or> (\<exists>p'. rl (n + i) = Inr p' \<and> terminal (pred_status p')) \<Longrightarrow>
   prediction_wait (Suc i + d) rl n p \<noteq> Blocked"
proof (induction i arbitrary: n p)
  case 0
  then show ?case
    by (cases d) (auto split: sum.splits)
next
  case (Suc i)
  have step: "prediction_wait (Suc i + d) rl (Suc n) p' \<noteq> Blocked" for p'
    using Suc.IH[of "Suc n" p'] Suc.prems by simp
  show ?case
    using step by (auto split: sum.splits)
qed

lemma prediction_wait_stable:
  "prediction_wait k rl n p \<noteq> Blocked \<Longrightarrow>
   prediction_wait (k + d) rl n p = prediction_wait k rl n p"
proof (induction k arbitrary: n p)
  case 0
  then show ?case by (cases d) (auto split: if_splits)
next
  case (Suc k)
  then show ?case by (auto split: sum.splits if_splits)
qed

lemma run_prediction_Blocked:
  "fst (run_prediction k x jid up m s) = Blocked \<Longrightarrow>
   \<exists>q. prediction_wait k (reload x) 0 q = Blocked"
  by (auto simp: run_prediction_def run_prediction_try_def Let_def case_prod_beta
      submit_not_Blocked download_not_Blocked split: res.splits option.splits if_splits)

text \<open>
  C5 fails on the code: \<^verbatim>\<open>_wait_for_prediction\<close> calls \<^verbatim>\<open>prediction.wait()\<close> with no bound
  and \<^verbatim>\<open>JOB_MAX_WAIT_SEC\<close> is read nowhere. When the submission is accepted and the
  prediction never reports a terminal status, then however many reloads one waits, the
  unit has not returned: no timeout error is raised, no failed write is made, and the job
  stays at processing.
\<close>

theorem C5_wait_has_no_bound:
  assumes "files s (get_file_path (storage_dir x) (u_storage_key upload)) \<noteq> None"
    and "fst (submit_prediction x model_name
               (get_file_path (storage_dir x) (u_storage_key upload)) s) = Ok q"
    and "\<not> terminal (pred_status q)"
    and "\<forall>i. \<exists>p'. reload x i = Inr p' \<and> \<not> terminal (pred_status p')"
  shows "fst (run_prediction k x job_id upload model_name s) = Blocked
         \<and> new_writes s (snd (run_prediction k x job_id upload model_name s)) =
             [(job_id, [Status ''processing'', Started_at (now_started x)]),
              (job_id, [Replicate_id (pred_id q)])]
         \<and> (\<forall>j. jobs s job_id = Some j \<longrightarrow>
              jobs (snd (run_prediction k x job_id upload model_name s)) job_id =
                Some (j\<lparr>j_status := ''processing'', j_started_at := Some (now_started x),
                        j_replicate_id := Some (pred_id q)\<rparr>))"
proof -
  have sub: "fst (submit_prediction x model_name
      (get_file_path (storage_dir x) (u_storage_key upload)) s') = Ok q" for s'
    using assms(2) by (simp add: fst_submit_prediction)
  have w: "prediction_wait k (reload x) 0 q = Blocked"
    using assms(3,4) by (rule prediction_wait_stuck[rotated])
  show ?thesis
    using assms(1)
    by (auto simp: run_prediction_def run_prediction_try_def Let_def case_prod_beta sub w
        new_writes_def jobs_update_job)
qed

theorem C5_wait_has_no_bound_witness:
  "fst (run_prediction JOB_MAX_WAIT_SEC stuck_ext ''job_0123456789ab'' demo_upload
          ''lucataco/real-esrgan-video'' demo_created) = Blocked
   \<and> map_option j_status
        (jobs (snd (run_prediction JOB_MAX_WAIT_SEC stuck_ext ''job_0123456789ab'' demo_upload
          ''lucataco/real-esrgan-video'' demo_created)) ''job_0123456789ab'') =
       Some ''processing''"
proof -
  have a: "files demo_created
      (get_file_path (storage_dir stuck_ext) (u_storage_key demo_upload)) \<noteq> None"
    by (simp add: stuck_ext_def demo_ext_def demo_created_def demo_state_def demo_upload_def
        get_file_path_def)
  have b: "fst (submit_prediction stuck_ext ''lucataco/real-esrgan-video''
      (get_file_path (storage_dir stuck_ext) (u_storage_key demo_upload)) demo_created) =
      Ok demo_prediction"
    by (simp add: fst_submit_prediction stuck_ext_def demo_ext_def)
  have c: "\<not> terminal (pred_status demo_prediction)"
    by (simp add: terminal_def demo_prediction_def)
  have d: "\<forall>i. \<exists>p'. reload stuck_ext i = Inr p' \<and> \<not> terminal (pred_status p')"
    by (simp add: stuck_ext_def terminal_def)
  have j: "jobs demo_created ''job_0123456789ab'' = Some demo_job"
    by (simp add: demo_created_def demo_state_def)
  from C5_wait_has_no_bound[OF a b c d, of JOB_MAX_WAIT_SEC "''job_0123456789ab''"] j
  show ?thesis by simp
qed

subsection \<open>Download\<close>

text \<open>
  Once the prediction has succeeded with a usable URL, what the unit writes last is
  decided by the download: completed with the number of bytes, or failed with the
  message of the exception.
\<close>

lemma run_prediction_download:
  assumes "files s (get_file_path (storage_dir x) (u_storage_key up)) \<noteq> None"
    and "fst (submit_prediction x m (get_file_path (storage_dir x) (u_storage_key up)) s) = Ok q"
    and "prediction_wait k (reload x) 0 q = Ok p"
    and "pred_status p \<noteq> ''failed''" and "pred_status p \<noteq> ''canceled''"
    and "extract_output_url (render x) p = Some url" and "url \<noteq> []"
  shows "fst (run_prediction k x jid up m s) = Ok () \<and>
         new_writes s (snd (run_prediction k x jid up m s)) =
           [(jid, [Status ''processing'', Started_at (now_started x)]),
            (jid, [Replicate_id (pred_id q)]),
            (jid, case fst (download_output x url
                     (generate_output_key (utc_today x) jid (''enhanced_'' @ u_original_filename up))
                     s) of
                    Ok n \<Rightarrow> [Status ''completed'',
                             Output_key (generate_output_key (utc_today x) jid
                                (''enhanced_'' @ u_original_filename up)),
                             Output_size n, Progress 100, Completed_at (now_finished x)]
                  | Raise e \<Rightarrow> [Status ''failed'', Error_message (str_exn e),
                                Completed_at (now_finished x)]
                  | Blocked \<Rightarrow> [])]"
proof -
  have sub: "fst (submit_prediction x m (get_file_path (storage_dir x) (u_storage_key up)) s') = Ok q"
    for s'
    using assms(2) by (simp add: fst_submit_prediction)
  have dl: "fst (download_output x url key s') = fst (download_output x url key s)" for key s'
    by (simp add: fst_download_output)
  show ?thesis
    using assms(1,3-7) download_not_Blocked[of x url _ s]
    by (auto simp: run_prediction_def run_prediction_try_def Let_def case_prod_beta sub
        new_writes_def dl[of _ "snd (wait_for_prediction _ _ _ _)"] split: res.splits)
qed

text \<open>
  C6 (as amended). The download raises the HTTP status error when the server answers
  with a status outside 2xx, and then writes no file; it raises the transport's exception
  when the connection cannot be made or breaks during the stream; either way the job ends
  failed with the message of the exception. When the stream ends normally the download
  returns the number of bytes written, whatever it is, zero included, the file holds
  those bytes, and the job ends completed with that size.
\<close>

theorem C6_download_outcomes:
  "(\<forall>e. http_get x url = Inl e \<longrightarrow>
        fst (download_output x url key s) = Raise e \<and>
        files (snd (download_output x url key s)) = files s)
   \<and> (\<forall>resp. http_get x url = Inr resp \<and> \<not> is_success (status_code resp) \<longrightarrow>
        fst (download_output x url key s) = Raise (HTTPStatusError (status_error resp)) \<and>
        files (snd (download_output x url key s)) = files s)
   \<and> (\<forall>resp e. http_get x url = Inr resp \<and> is_success (status_code resp) \<and>
          broken resp = Some e \<longrightarrow>
        fst (download_output x url key s) = Raise e)
   \<and> (\<forall>resp. http_get x url = Inr resp \<and> is_success (status_code resp) \<and>
          broken resp = None \<longrightarrow>
        fst (download_output x url key s) = Ok (length (concat (chunks resp))) \<and>
        files (snd (download_output x url key s)) (get_file_path (storage_dir x) key) =
          Some (concat (chunks resp)))
   \<and> (files s (get_file_path (storage_dir x) (u_storage_key upload)) \<noteq> None \<and>
        fst (submit_prediction x model_name
               (get_file_path (storage_dir x) (u_storage_key upload)) s) = Ok q \<and>
        prediction_wait k (reload x) 0 q = Ok p \<and>
        pred_status p \<noteq> ''failed'' \<and> pred_status p \<noteq> ''canceled'' \<and>
        extract_output_url (render x) p = Some url \<and> url \<noteq> [] \<and>
        key = generate_output_key (utc_today x) job_id
                (''enhanced_'' @ u_original_filename upload) \<longrightarrow>
        fst (run_prediction k x job_id upload model_name s) = Ok () \<and>
        (\<forall>e. fst (download_output x url key s) = Raise e \<longrightarrow>
           last (new_writes s (snd (run_prediction k x job_id upload model_name s))) =
             (job_id, [Status ''failed'', Error_message (str_exn e),
                       Completed_at (now_finished x)])) \<and>
        (\<forall>n. fst (download_output x url key s) = Ok n \<longrightarrow>
           last (new_writes s (snd (run_prediction k x job_id upload model_name s))) =
             (job_id, [Status ''completed'', Output_key key, Output_size n, Progress 100,
                       Completed_at (now_finished x)])))"
proof -
  have d: "(\<forall>e. http_get x url = Inl e \<longrightarrow>
        fst (download_output x url key s) = Raise e \<and>
        files (snd (download_output x url key s)) = files s)
   \<and> (\<forall>resp. http_get x url = Inr resp \<and> \<not> is_success (status_code resp) \<longrightarrow>
        fst (download_output x url key s) = Raise (HTTPStatusError (status_error resp)) \<and>
        files (snd (download_output x url key s)) = files s)
   \<and> (\<forall>resp e. http_get x url = Inr resp \<and> is_success (status_code resp) \<and>
          broken resp = Some e \<longrightarrow>
        fst (download_output x url key s) = Raise e)
   \<and> (\<forall>resp. http_get x url = Inr resp \<and> is_success (status_code resp) \<and>
          broken resp = None \<longrightarrow>
        fst (download_output x url key s) = Ok (length (concat (chunks resp))) \<and>
        files (snd (download_output x url key s)) (get_file_path (storage_dir x) key) =
          Some (concat (chunks resp)))"
    by (simp add: download_output_def Let_def fold_write_chunk)
  have r: "files s (get_file_path (storage_dir x) (u_storage_key upload)) \<noteq> None \<and>
        fst (submit_prediction x model_name
               (get_file_path (storage_dir x) (u_storage_key upload)) s) = Ok q \<and>
        prediction_wait k (reload x) 0 q = Ok p \<and>
        pred_status p \<noteq> ''failed'' \<and> pred_status p \<noteq> ''canceled'' \<and>
        extract_output_url (render x) p = Some url \<and> url \<noteq> [] \<and>
        key = generate_output_key (utc_today x) job_id
                (''enhanced_'' @ u_original_filename upload) \<longrightarrow>
        fst (run_prediction k x job_id upload model_name s) = Ok () \<and>
        (\<forall>e. fst (download_output x url key s) = Raise e \<longrightarrow>
           last (new_writes s (snd (run_prediction k x job_id upload model_name s))) =
             (job_id, [Status ''failed'', Error_message (str_exn e),
                       Completed_at (now_finished x)])) \<and>
        (\<forall>n. fst (download_output x url key s) = Ok n \<longrightarrow>
           last (new_writes s (snd (run_prediction k x job_id upload model_name s))) =
             (job_id, [Status ''completed'', Output_key key, Output_size n, Progress 100,
                       Completed_at (now_finished x)]))"
    using run_prediction_download[of s x upload model_name q k p url job_id]
    by auto
  from d r show ?thesis by blast
qed

lemma demo_prefix:
  assumes "storage_dir x = storage_dir demo_ext" "create x = create demo_ext"
    and "reload x = reload demo_ext" and "render x = render demo_ext"
  shows "files demo_created (get_file_path (storage_dir x) (u_storage_key demo_upload)) \<noteq> None"
    and "fst (submit_prediction x ''lucataco/real-esrgan-video''
               (get_file_path (storage_dir x) (u_storage_key demo_upload)) demo_created) =
         Ok demo_prediction"
    and "prediction_wait (Suc (Suc (Suc 0))) (reload x) 0 demo_prediction =
         Ok (demo_prediction\<lparr>pred_status := ''succeeded'',
               pred_output := PStr ''https://replicate.delivery/out.mp4''\<rparr>)"
    and "extract_output_url (render x)
           (demo_prediction\<lparr>pred_status := ''succeeded'',
               pred_output := PStr ''https://replicate.delivery/out.mp4''\<rparr>) =
         Some ''https://replicate.delivery/out.mp4''"
  using assms
  by (simp_all add: demo_ext_def demo_created_def demo_state_def demo_upload_def
      demo_prediction_def get_file_path_def fst_submit_prediction terminal_def
      extract_output_url_def)

theorem C6_download_outcomes_witness:
  "fst (download_output http_error_ext ''https://replicate.delivery/out.mp4''
          ''outputs/2024/03/07/job_0123456789ab_enhanced_clip.mp4'' demo_created) =
     Raise (HTTPStatusError ''Client error 404 Not Found'')
   \<and> fst (download_output broken_stream_ext ''https://replicate.delivery/out.mp4''
          ''outputs/2024/03/07/job_0123456789ab_enhanced_clip.mp4'' demo_created) =
     Raise (LibraryError ''peer closed connection'')
   \<and> fst (download_output demo_ext ''https://replicate.delivery/out.mp4''
          ''outputs/2024/03/07/job_0123456789ab_enhanced_clip.mp4'' demo_created) = Ok 3
   \<and> last (new_writes demo_created
        (snd (run_prediction (Suc (Suc (Suc 0))) http_error_ext ''job_0123456789ab''
                demo_upload ''lucataco/real-esrgan-video'' demo_created))) =
       (''job_0123456789ab'',
        [Status ''failed'', Error_message ''Client error 404 Not Found'',
         Completed_at ''2024-03-07T10:05:00+00:00''])
   \<and> last (new_writes demo_created
        (snd (run_prediction (Suc (Suc (Suc 0))) broken_stream_ext ''job_0123456789ab''
                demo_upload ''lucataco/real-esrgan-video'' demo_created))) =
       (''job_0123456789ab'',
        [Status ''failed'', Error_message ''peer closed connection'',
         Completed_at ''2024-03-07T10:05:00+00:00''])"
proof -
  let ?url = "''https://replicate.delivery/out.mp4''"
  let ?key = "''outputs/2024/03/07/job_0123456789ab_enhanced_clip.mp4''"
  let ?p = "demo_prediction\<lparr>pred_status := ''succeeded'', pred_output := PStr ?url\<rparr>"
  note c = C6_download_outcomes
  have key: "?key = generate_output_key (utc_today x) ''job_0123456789ab''
                (''enhanced_'' @ u_original_filename demo_upload)"
    if "utc_today x = utc_today demo_ext" for x
    using that
    by (simp add: demo_ext_def demo_upload_def generate_output_key_def str_nat.simps
        fmt_02d_def safe_name_def isalnum_def digit_char_def)
  have st: "pred_status ?p \<noteq> ''failed''" "pred_status ?p \<noteq> ''canceled''" "?url \<noteq> []"
    by simp_all
  have 1: "fst (download_output http_error_ext ?url ?key demo_created) =
      Raise (HTTPStatusError ''Client error 404 Not Found'')"
    using c[where x = http_error_ext and url = ?url and key = ?key and s = demo_created]
    by (simp add: http_error_ext_def is_success_def)
  have 2: "fst (download_output broken_stream_ext ?url ?key demo_created) =
      Raise (LibraryError ''peer closed connection'')"
    using c[where x = broken_stream_ext and url = ?url and key = ?key and s = demo_created]
    by (simp add: broken_stream_ext_def is_success_def)
  have 3: "fst (download_output demo_ext ?url ?key demo_created) = Ok 3"
    using c[where x = demo_ext and url = ?url and key = ?key and s = demo_created]
    by (simp add: demo_ext_def is_success_def)
  have 4: "last (new_writes demo_created
        (snd (run_prediction (Suc (Suc (Suc 0))) http_error_ext ''job_0123456789ab''
                demo_upload ''lucataco/real-esrgan-video'' demo_created))) =
       (''job_0123456789ab'',
        [Status ''failed'', Error_message ''Client error 404 Not Found'',
         Completed_at ''2024-03-07T10:05:00+00:00''])"
    using c[where x = http_error_ext and url = ?url and key = ?key and s = demo_created
        and upload = demo_upload and model_name = "''lucataco/real-esrgan-video''"
        and q = demo_prediction and k = "Suc (Suc (Suc 0))" and p = ?p
        and job_id = "''job_0123456789ab''"]
      demo_prefix[of http_error_ext] key[of http_error_ext] st 1
    by (simp add: http_error_ext_def) (simp add: demo_ext_def)
  have 5: "last (new_writes demo_created
        (snd (run_prediction (Suc (Suc (Suc 0))) broken_stream_ext ''job_0123456789ab''
                demo_upload ''lucataco/real-esrgan-video'' demo_created))) =
       (''job_0123456789ab'',
        [Status ''failed'', Error_message ''peer closed connection'',
         Completed_at ''2024-03-07T10:05:00+00:00''])"
    using c[where x = broken_stream_ext and url = ?url and key = ?key and s = demo_created
        and upload = demo_upload and model_name = "''lucataco/real-esrgan-video''"
        and q = demo_prediction and k = "Suc (Suc (Suc 0))" and p = ?p
        and job_id = "''job_0123456789ab''"]
      demo_prefix[of broken_stream_ext] key[of broken_stream_ext] st 2
    by (simp add: broken_stream_ext_def) (simp add: demo_ext_def)
  from 1 2 3 4 5 show ?thesis by blast
qed

text \<open>
  C6 as stated fails on its last part: with a 200 answer and an empty body the download
  returns 0 without raising, and the job ends completed with size 0.
\<close>

theorem C6_counterexample:
  "fst (download_output empty_body_ext ''https://replicate.delivery/out.mp4''
          ''outputs/2024/03/07/job_0123456789ab_enhanced_clip.mp4'' demo_created) = Ok 0
   \<and> fst (run_prediction (Suc (Suc (Suc 0))) empty_body_ext ''job_0123456789ab'' demo_upload
            ''lucataco/real-esrgan-video'' demo_created) = Ok ()
   \<and> map_option (\<lambda>j. (j_status j, j_output_size j, j_error_message j))
        (jobs (snd (run_prediction (Suc (Suc (Suc 0))) empty_body_ext ''job_0123456789ab''
                      demo_upload ''lucataco/real-esrgan-video'' demo_created))
           ''job_0123456789ab'') =
       Some (''completed'', Some 0, None)"
  by (simp add: run_prediction_def run_prediction_try_def Let_def case_prod_beta
      empty_body_ext_def demo_ext_def demo_created_def demo_state_def demo_upload_def
      demo_prediction_def demo_job_def get_file_path_def fst_submit_prediction
      snd_submit_prediction fst_download_output jobs_update_job terminal_def
      extract_output_url_def is_success_def)

subsection \<open>Creating a job\<close>

lemma models_keys: "repr_str_list (map fst REPLICATE_MODELS) =
    CHR ''['' # CHR 0x27 # ''upscale'' @ CHR 0x27 # '', '' @ CHR 0x27 # ''upscale_premium'' @
    [CHR 0x27, CHR '']'']"
  by (simp add: repr_str_list_def repr_str_def REPLICATE_MODELS_def)

lemma models_lookup:
  "map_of REPLICATE_MODELS key =
     (if key = ''upscale'' then Some ''lucataco/real-esrgan-video''
      else if key = ''upscale_premium'' then Some ''topazlabs/video-upscale'' else None)"
  by (simp add: REPLICATE_MODELS_def)

text \<open>
  What the read-back can find: the row of the job with some of the unit's writes applied.
  No write changes the id, the upload, the model name or the creation time, and the
  status found is the one inserted or one the unit writes.
\<close>

lemma unit_progress_0 [simp]: "unit_progress 0 k x jid up m s = s"
  by (simp add: unit_progress_def)

lemma unit_progress_row:
  assumes "jobs s jid = Some j"
  shows "\<exists>j'. jobs (unit_progress seen k x jid up m s) jid = Some j' \<and>
           j_id j' = j_id j \<and> j_upload_id j' = j_upload_id j \<and>
           j_model_name j' = j_model_name j \<and> j_created_at j' = j_created_at j \<and>
           (j_status j' = j_status j \<or> j_status j' = ''processing'' \<or>
            j_status j' = ''completed'' \<or> j_status j' = ''failed'')"
proof -
  have n: "seen = 0 \<or> seen = Suc 0 \<or> seen = Suc (Suc 0) \<or> (\<exists>d. seen = Suc (Suc (Suc d)))"
    by (cases seen; simp; rename_tac a; case_tac a; simp; rename_tac b; case_tac b; simp)
  from run_prediction_writes[of k x jid up m s] n assms
  show ?thesis
    by (elim disjE exE conjE) (simp_all add: unit_progress_def jobs_update_job)
qed

lemma unit_progress_1:
  "unit_progress (Suc 0) k x jid up m s =
     update_job jid [Status ''processing'', Started_at (now_started x)] s"
  using run_prediction_writes[of k x jid up m s]
  by (elim disjE exE conjE) (simp_all add: unit_progress_def)

text \<open>The successful path of \<^verbatim>\<open>create_enhance_job\<close>, for a job id not yet in the store.\<close>

lemma create_enhance_job_ok:
  assumes "get_upload upload_id s = Some u" and "u_status u = ''uploaded''"
    and "REPLICATE_API_TOKEN x \<noteq> []"
    and "map_of REPLICATE_MODELS
           (case model_key of None \<Rightarrow> DEFAULT_ENHANCE_MODEL
            | Some k' \<Rightarrow> (if k' = [] then DEFAULT_ENHANCE_MODEL else k')) = Some m"
    and "m \<noteq> []"
    and "jobs s (''job_'' @ take 12 uuid_hex) = None"
  shows "create_enhance_job x uuid_hex now seen k upload_id model_key s =
     (Ok (jobs (unit_progress seen k x (''job_'' @ take 12 uuid_hex) u m
           (s\<lparr>jobs := (jobs s)(''job_'' @ take 12 uuid_hex \<mapsto>
              \<lparr>j_id = ''job_'' @ take 12 uuid_hex, j_upload_id = upload_id, j_model_name = m,
               j_replicate_id = None, j_status = ''pending'', j_progress = 0,
               j_output_key = None, j_output_size = None, j_error_message = None,
               j_created_at = now, j_started_at = None, j_completed_at = None\<rparr>),
              tasks := tasks s @ [(''job_'' @ take 12 uuid_hex, u, m)]\<rparr>))
          (''job_'' @ take 12 uuid_hex)),
      s\<lparr>jobs := (jobs s)(''job_'' @ take 12 uuid_hex \<mapsto>
              \<lparr>j_id = ''job_'' @ take 12 uuid_hex, j_upload_id = upload_id, j_model_name = m,
               j_replicate_id = None, j_status = ''pending'', j_progress = 0,
               j_output_key = None, j_output_size = None, j_error_message = None,
               j_created_at = now, j_started_at = None, j_completed_at = None\<rparr>),
        tasks := tasks s @ [(''job_'' @ take 12 uuid_hex, u, m)]\<rparr>)"
  using assms
  by (simp add: create_enhance_job_def insert_job_def get_job_def Let_def)

lemma create_enhance_job_raise:
  "fst (create_enhance_job x uuid_hex now seen k upload_id model_key s) = Raise e \<Longrightarrow>
   snd (create_enhance_job x uuid_hex now seen k upload_id model_key s) = s"
  by (auto simp: create_enhance_job_def insert_job_def Let_def
      split: option.splits if_splits)

text \<open>
  C3. \<^verbatim>\<open>create_enhance_job\<close> raises \<^verbatim>\<open>EnhanceError\<close> with its own message for an
  unknown upload, for an upload whose status is not uploaded, for an empty API token and
  for a model key that the registry does not map to a model name (an omitted or empty key
  stands for the default key), checked in this order; the four messages differ from each
  other. Whenever the call raises, the state is the one before the call: no job is
  inserted and no unit is scheduled. Otherwise, the generated id being new, the state
  gains exactly the job at status pending under that id and exactly one scheduled unit
  for it, and the call returns the record of that job without waiting for the unit: the
  record has the job's id, upload, model name and creation time, and its status is
  pending or, when the unit has already written, a status the unit writes; it is the
  inserted record itself when the read comes before the unit's first write.
\<close>

theorem C3_create_enhance_job:
  fixes x uuid_hex now seen k upload_id model_key s
  defines "r \<equiv> create_enhance_job x uuid_hex now seen k upload_id model_key s"
    and "key' \<equiv> (case model_key of None \<Rightarrow> DEFAULT_ENHANCE_MODEL
                  | Some k' \<Rightarrow> (if k' = [] then DEFAULT_ENHANCE_MODEL else k'))"
    and "job_id \<equiv> ''job_'' @ take 12 uuid_hex"
  shows
   "(get_upload upload_id s = None \<longrightarrow> r = (Raise (EnhanceError ''Upload not found''), s))
    \<and> (\<forall>u. get_upload upload_id s = Some u \<and> u_status u \<noteq> ''uploaded'' \<longrightarrow>
          r = (Raise (EnhanceError ''Upload is not ready for enhancement''), s))
    \<and> (\<forall>u. get_upload upload_id s = Some u \<and> u_status u = ''uploaded'' \<and>
            REPLICATE_API_TOKEN x = [] \<longrightarrow>
          r = (Raise (EnhanceError
                 ''REPLICATE_API_TOKEN not set. Export it to enable AI enhancement.''), s))
    \<and> (\<forall>u. get_upload upload_id s = Some u \<and> u_status u = ''uploaded'' \<and>
            REPLICATE_API_TOKEN x \<noteq> [] \<and>
            (map_of REPLICATE_MODELS key' = None \<or> map_of REPLICATE_MODELS key' = Some []) \<longrightarrow>
          r = (Raise (EnhanceError (''Unknown model: '' @ key' @ ''. Available: '' @
                 repr_str_list (map fst REPLICATE_MODELS))), s))
    \<and> ((map_of REPLICATE_MODELS key' = None \<or> map_of REPLICATE_MODELS key' = Some []) \<longleftrightarrow>
          key' \<noteq> ''upscale'' \<and> key' \<noteq> ''upscale_premium'')
    \<and> (\<forall>u m. get_upload upload_id s = Some u \<and> u_status u = ''uploaded'' \<and>
            REPLICATE_API_TOKEN x \<noteq> [] \<and> map_of REPLICATE_MODELS key' = Some m \<and> m \<noteq> [] \<and>
            jobs s job_id = None \<longrightarrow>
          snd r =
            s\<lparr>jobs := (jobs s)(job_id \<mapsto>
                 \<lparr>j_id = job_id, j_upload_id = upload_id, j_model_name = m,
                  j_replicate_id = None, j_status = ''pending'', j_progress = 0,
                  j_output_key = None, j_output_size = None, j_error_message = None,
                  j_created_at = now, j_started_at = None, j_completed_at = None\<rparr>),
               tasks := tasks s @ [(job_id, u, m)]\<rparr>
          \<and> (\<exists>rec. fst r = Ok (Some rec) \<and> j_id rec = job_id \<and> j_upload_id rec = upload_id \<and>
                 j_model_name rec = m \<and> j_created_at rec = now \<and>
                 (j_status rec = ''pending'' \<or> j_status rec = ''processing'' \<or>
                  j_status rec = ''completed'' \<or> j_status rec = ''failed''))
          \<and> (seen = 0 \<longrightarrow>
                fst r = Ok (Some
                 \<lparr>j_id = job_id, j_upload_id = upload_id, j_model_name = m,
                  j_replicate_id = None, j_status = ''pending'', j_progress = 0,
                  j_output_key = None, j_output_size = None, j_error_message = None,
                  j_created_at = now, j_started_at = None, j_completed_at = None\<rparr>))
          \<and> (seen = Suc 0 \<longrightarrow>
                fst r = Ok (Some
                 \<lparr>j_id = job_id, j_upload_id = upload_id, j_model_name = m,
                  j_replicate_id = None, j_status = ''processing'', j_progress = 0,
                  j_output_key = None, j_output_size = None, j_error_message = None,
                  j_created_at = now, j_started_at = Some (now_started x),
                  j_completed_at = None\<rparr>)))
    \<and> (\<forall>e. fst r = Raise e \<longrightarrow> snd r = s)
    \<and> fst r \<noteq> Blocked
    \<and> ''Upload not found'' \<noteq> ''Upload is not ready for enhancement''
    \<and> ''Upload not found'' \<noteq> ''REPLICATE_API_TOKEN not set. Export it to enable AI enhancement.''
    \<and> ''Upload is not ready for enhancement'' \<noteq>
        ''REPLICATE_API_TOKEN not set. Export it to enable AI enhancement.''
    \<and> ''Unknown model: '' @ key' @ ''. Available: '' @ repr_str_list (map fst REPLICATE_MODELS)
        \<notin> {''Upload not found'', ''Upload is not ready for enhancement'',
            ''REPLICATE_API_TOKEN not set. Export it to enable AI enhancement.''}"
proof -
  have e1: "get_upload upload_id s = None \<longrightarrow> r = (Raise (EnhanceError ''Upload not found''), s)"
    by (simp add: r_def create_enhance_job_def)
  have e2: "\<forall>u. get_upload upload_id s = Some u \<and> u_status u \<noteq> ''uploaded'' \<longrightarrow>
          r = (Raise (EnhanceError ''Upload is not ready for enhancement''), s)"
    by (simp add: r_def create_enhance_job_def)
  have e3: "\<forall>u. get_upload upload_id s = Some u \<and> u_status u = ''uploaded'' \<and>
            REPLICATE_API_TOKEN x = [] \<longrightarrow>
          r = (Raise (EnhanceError
                 ''REPLICATE_API_TOKEN not set. Export it to enable AI enhancement.''), s)"
    by (simp add: r_def create_enhance_job_def)
  have e4: "\<forall>u. get_upload upload_id s = Some u \<and> u_status u = ''uploaded'' \<and>
            REPLICATE_API_TOKEN x \<noteq> [] \<and>
            (map_of REPLICATE_MODELS key' = None \<or> map_of REPLICATE_MODELS key' = Some []) \<longrightarrow>
          r = (Raise (EnhanceError (''Unknown model: '' @ key' @ ''. Available: '' @
                 repr_str_list (map fst REPLICATE_MODELS))), s)"
    by (auto simp: r_def key'_def create_enhance_job_def Let_def)
  have e5: "(map_of REPLICATE_MODELS key' = None \<or> map_of REPLICATE_MODELS key' = Some []) \<longleftrightarrow>
          key' \<noteq> ''upscale'' \<and> key' \<noteq> ''upscale_premium''"
    by (simp add: models_lookup)
  have ok: "\<forall>u m. get_upload upload_id s = Some u \<and> u_status u = ''uploaded'' \<and>
            REPLICATE_API_TOKEN x \<noteq> [] \<and> map_of REPLICATE_MODELS key' = Some m \<and> m \<noteq> [] \<and>
            jobs s job_id = None \<longrightarrow>
          snd r =
            s\<lparr>jobs := (jobs s)(job_id \<mapsto>
                 \<lparr>j_id = job_id, j_upload_id = upload_id, j_model_name = m,
                  j_replicate_id = None, j_status = ''pending'', j_progress = 0,
                  j_output_key = None, j_output_size = None, j_error_message = None,
                  j_created_at = now, j_started_at = None, j_completed_at = None\<rparr>),
               tasks := tasks s @ [(job_id, u, m)]\<rparr>
          \<and> (\<exists>rec. fst r = Ok (Some rec) \<and> j_id rec = job_id \<and> j_upload_id rec = upload_id \<and>
                 j_model_name rec = m \<and> j_created_at rec = now \<and>
                 (j_status rec = ''pending'' \<or> j_status rec = ''processing'' \<or>
                  j_status rec = ''completed'' \<or> j_status rec = ''failed''))
          \<and> (seen = 0 \<longrightarrow>
                fst r = Ok (Some
                 \<lparr>j_id = job_id, j_upload_id = upload_id, j_model_name = m,
                  j_replicate_id = None, j_status = ''pending'', j_progress = 0,
                  j_output_key = None, j_output_size = None, j_error_message = None,
                  j_created_at = now, j_started_at = None, j_completed_at = None\<rparr>))
          \<and> (seen = Suc 0 \<longrightarrow>
                fst r = Ok (Some
                 \<lparr>j_id = job_id, j_upload_id = upload_id, j_model_name = m,
                  j_replicate_id = None, j_status = ''processing'', j_progress = 0,
                  j_output_key = None, j_output_size = None, j_error_message = None,
                  j_created_at = now, j_started_at = Some (now_started x),
                  j_completed_at = None\<rparr>))"
  proof (intro allI impI)
    fix u m
    let ?row = "\<lparr>j_id = job_id, j_upload_id = upload_id, j_model_name = m,
                  j_replicate_id = None, j_status = ''pending'', j_progress = 0,
                  j_output_key = None, j_output_size = None, j_error_message = None,
                  j_created_at = now, j_started_at = None, j_completed_at = None\<rparr>"
    let ?s2 = "s\<lparr>jobs := (jobs s)(job_id \<mapsto> ?row), tasks := tasks s @ [(job_id, u, m)]\<rparr>"
    assume h: "get_upload upload_id s = Some u \<and> u_status u = ''uploaded'' \<and>
            REPLICATE_API_TOKEN x \<noteq> [] \<and> map_of REPLICATE_MODELS key' = Some m \<and> m \<noteq> [] \<and>
            jobs s job_id = None"
    then have eq: "r = (Ok (jobs (unit_progress seen k x job_id u m ?s2) job_id), ?s2)"
      unfolding r_def key'_def job_id_def
      by (intro create_enhance_job_ok) simp_all
    have "jobs ?s2 job_id = Some ?row" by simp
    from unit_progress_row[OF this, of seen k x u m]
    obtain rec where rec: "jobs (unit_progress seen k x job_id u m ?s2) job_id = Some rec"
      "j_id rec = job_id" "j_upload_id rec = upload_id" "j_model_name rec = m"
      "j_created_at rec = now"
      "j_status rec = ''pending'' \<or> j_status rec = ''processing'' \<or>
       j_status rec = ''completed'' \<or> j_status rec = ''failed''"
      by auto
    have z: "seen = 0 \<longrightarrow> fst r = Ok (Some ?row)"
      by (simp add: eq)
    have z1: "seen = Suc 0 \<longrightarrow> fst r = Ok (Some (?row\<lparr>j_status := ''processing'',
        j_started_at := Some (now_started x)\<rparr>))"
      by (simp add: eq unit_progress_1 jobs_update_job)
    from eq rec z z1
    show "snd r = ?s2
          \<and> (\<exists>rec. fst r = Ok (Some rec) \<and> j_id rec = job_id \<and> j_upload_id rec = upload_id \<and>
                 j_model_name rec = m \<and> j_created_at rec = now \<and>
                 (j_status rec = ''pending'' \<or> j_status rec = ''processing'' \<or>
                  j_status rec = ''completed'' \<or> j_status rec = ''failed''))
          \<and> (seen = 0 \<longrightarrow> fst r = Ok (Some ?row))
          \<and> (seen = Suc 0 \<longrightarrow>
                fst r = Ok (Some
                 \<lparr>j_id = job_id, j_upload_id = upload_id, j_model_name = m,
                  j_replicate_id = None, j_status = ''processing'', j_progress = 0,
                  j_output_key = None, j_output_size = None, j_error_message = None,
                  j_created_at = now, j_started_at = Some (now_started x),
                  j_completed_at = None\<rparr>))"
      by simp
  qed
  have ra: "\<forall>e. fst r = Raise e \<longrightarrow> snd r = s"
    unfolding r_def using create_enhance_job_raise by blast
  have nb: "fst r \<noteq> Blocked"
    by (auto simp: r_def create_enhance_job_def insert_job_def Let_def
        split: option.splits if_splits)
  have d: "''Upload not found'' \<noteq> ''Upload is not ready for enhancement''"
    "''Upload not found'' \<noteq> ''REPLICATE_API_TOKEN not set. Export it to enable AI enhancement.''"
    "''Upload is not ready for enhancement'' \<noteq>
        ''REPLICATE_API_TOKEN not set. Export it to enable AI enhancement.''"
    "''Unknown model: '' @ key' @ ''. Available: '' @ repr_str_list (map fst REPLICATE_MODELS)
        \<notin> {''Upload not found'', ''Upload is not ready for enhancement'',
            ''REPLICATE_API_TOKEN not set. Export it to enable AI enhancement.''}"
    by simp_all
  from e1 e2 e3 e4 e5 ok ra nb d show ?thesis by blast
qed

lemma demo_readback:
  "fst (create_enhance_job demo_ext ''0123456789abcdef0123456789abcdef''
       ''2024-03-07T10:00:00+00:00'' (Suc 0) 0 ''upl_1'' (Some ''upscale_premium'')
       demo_state) =
     Ok (Some (demo_job\<lparr>j_model_name := ''topazlabs/video-upscale'',
                 j_status := ''processing'',
                 j_started_at := Some ''2024-03-07T10:00:01+00:00''\<rparr>))"
  "fst (create_enhance_job demo_ext ''0123456789abcdef0123456789abcdef''
       ''2024-03-07T10:00:00+00:00'' (Suc 0) 0 ''upl_1'' None demo_state) =
     Ok (Some (demo_job\<lparr>j_status := ''processing'',
                 j_started_at := Some ''2024-03-07T10:00:01+00:00''\<rparr>))"
  by (simp_all add: create_enhance_job_def insert_job_def get_job_def get_upload_def Let_def
      unit_progress_1 jobs_update_job demo_state_def demo_upload_def demo_ext_def
      demo_job_def models_lookup DEFAULT_ENHANCE_MODEL_def)

theorem C3_create_enhance_job_witness:
  "create_enhance_job demo_ext ''0123456789abcdef0123456789abcdef''
       ''2024-03-07T10:00:00+00:00'' (Suc 0) 0 ''upl_9'' None demo_state =
     (Raise (EnhanceError ''Upload not found''), demo_state)
   \<and> create_enhance_job demo_ext ''0123456789abcdef0123456789abcdef''
       ''2024-03-07T10:00:00+00:00'' (Suc 0) 0 ''upl_1'' None
       (demo_state\<lparr>uploads := [''upl_1'' \<mapsto> demo_upload\<lparr>u_status := ''uploading''\<rparr>]\<rparr>) =
     (Raise (EnhanceError ''Upload is not ready for enhancement''),
      demo_state\<lparr>uploads := [''upl_1'' \<mapsto> demo_upload\<lparr>u_status := ''uploading''\<rparr>]\<rparr>)
   \<and> create_enhance_job (demo_ext\<lparr>REPLICATE_API_TOKEN := []\<rparr>)
       ''0123456789abcdef0123456789abcdef'' ''2024-03-07T10:00:00+00:00'' (Suc 0) 0 ''upl_1''
       None demo_state =
     (Raise (EnhanceError ''REPLICATE_API_TOKEN not set. Export it to enable AI enhancement.''),
      demo_state)
   \<and> create_enhance_job demo_ext ''0123456789abcdef0123456789abcdef''
       ''2024-03-07T10:00:00+00:00'' (Suc 0) 0 ''upl_1'' (Some ''sharpen'') demo_state =
     (Raise (EnhanceError (''Unknown model: sharpen. Available: ['' @ [CHR 0x27] @ ''upscale'' @
        [CHR 0x27] @ '', '' @ [CHR 0x27] @ ''upscale_premium'' @ [CHR 0x27] @ '']'')),
      demo_state)
   \<and> snd (create_enhance_job demo_ext ''0123456789abcdef0123456789abcdef''
       ''2024-03-07T10:00:00+00:00'' (Suc 0) 0 ''upl_1'' (Some ''upscale_premium'')
       demo_state) =
     demo_state\<lparr>jobs := [''job_0123456789ab'' \<mapsto>
                    demo_job\<lparr>j_model_name := ''topazlabs/video-upscale''\<rparr>],
                tasks := [(''job_0123456789ab'', demo_upload, ''topazlabs/video-upscale'')]\<rparr>
   \<and> fst (create_enhance_job demo_ext ''0123456789abcdef0123456789abcdef''
       ''2024-03-07T10:00:00+00:00'' (Suc 0) 0 ''upl_1'' (Some ''upscale_premium'')
       demo_state) =
     Ok (Some (demo_job\<lparr>j_model_name := ''topazlabs/video-upscale'',
                 j_status := ''processing'',
                 j_started_at := Some ''2024-03-07T10:00:01+00:00''\<rparr>))
   \<and> fst (create_enhance_job demo_ext ''0123456789abcdef0123456789abcdef''
       ''2024-03-07T10:00:00+00:00'' 0 0 ''upl_1'' (Some ''upscale_premium'') demo_state) =
     Ok (Some (demo_job\<lparr>j_model_name := ''topazlabs/video-upscale''\<rparr>))"
proof -
  let ?uuid = "''0123456789abcdef0123456789abcdef''"
  let ?now = "''2024-03-07T10:00:00+00:00''"
  let ?s2 = "demo_state\<lparr>uploads := [''upl_1'' \<mapsto> demo_upload\<lparr>u_status := ''uploading''\<rparr>]\<rparr>"
  note c = C3_create_enhance_job
  have 1: "create_enhance_job demo_ext ?uuid ?now (Suc 0) 0 ''upl_9'' None demo_state =
      (Raise (EnhanceError ''Upload not found''), demo_state)"
    using c[where upload_id = "''upl_9''" and s = demo_state and x = demo_ext
        and uuid_hex = ?uuid and now = ?now and model_key = None and seen = "Suc 0" and k = 0]
    by (simp add: get_upload_def demo_state_def)
  have 2: "create_enhance_job demo_ext ?uuid ?now (Suc 0) 0 ''upl_1'' None ?s2 =
      (Raise (EnhanceError ''Upload is not ready for enhancement''), ?s2)"
    using c[where upload_id = "''upl_1''" and s = ?s2 and x = demo_ext
        and uuid_hex = ?uuid and now = ?now and model_key = None and seen = "Suc 0" and k = 0]
    by (simp add: get_upload_def demo_state_def)
  have 3: "create_enhance_job (demo_ext\<lparr>REPLICATE_API_TOKEN := []\<rparr>) ?uuid ?now (Suc 0) 0
        ''upl_1'' None demo_state =
      (Raise (EnhanceError ''REPLICATE_API_TOKEN not set. Export it to enable AI enhancement.''),
       demo_state)"
    using c[where upload_id = "''upl_1''" and s = demo_state
        and x = "demo_ext\<lparr>REPLICATE_API_TOKEN := []\<rparr>"
        and uuid_hex = ?uuid and now = ?now and model_key = None and seen = "Suc 0" and k = 0]
    by (simp add: get_upload_def demo_state_def demo_upload_def)
  have 4: "create_enhance_job demo_ext ?uuid ?now (Suc 0) 0 ''upl_1'' (Some ''sharpen'')
        demo_state =
      (Raise (EnhanceError (''Unknown model: sharpen. Available: ['' @ [CHR 0x27] @ ''upscale'' @
        [CHR 0x27] @ '', '' @ [CHR 0x27] @ ''upscale_premium'' @ [CHR 0x27] @ '']'')),
       demo_state)"
    using c[where upload_id = "''upl_1''" and s = demo_state and x = demo_ext
        and uuid_hex = ?uuid and now = ?now and model_key = "Some ''sharpen''"
        and seen = "Suc 0" and k = 0]
    by (simp add: get_upload_def demo_state_def demo_upload_def demo_ext_def models_lookup
        models_keys)
  have 5: "snd (create_enhance_job demo_ext ?uuid ?now (Suc 0) 0 ''upl_1''
        (Some ''upscale_premium'') demo_state) =
      demo_state\<lparr>jobs := [''job_0123456789ab'' \<mapsto>
                     demo_job\<lparr>j_model_name := ''topazlabs/video-upscale''\<rparr>],
                 tasks := [(''job_0123456789ab'', demo_upload, ''topazlabs/video-upscale'')]\<rparr>"
    using c[where upload_id = "''upl_1''" and s = demo_state and x = demo_ext
        and uuid_hex = ?uuid and now = ?now and model_key = "Some ''upscale_premium''"
        and seen = "Suc 0" and k = 0]
    by (simp add: get_upload_def demo_state_def demo_upload_def demo_ext_def models_lookup
        demo_job_def)
  have 6: "fst (create_enhance_job demo_ext ?uuid ?now 0 0 ''upl_1''
        (Some ''upscale_premium'') demo_state) =
      Ok (Some (demo_job\<lparr>j_model_name := ''topazlabs/video-upscale''\<rparr>))"
    using c[where upload_id = "''upl_1''" and s = demo_state and x = demo_ext
        and uuid_hex = ?uuid and now = ?now and model_key = "Some ''upscale_premium''"
        and seen = 0 and k = 0]
    by (simp add: get_upload_def demo_state_def demo_upload_def demo_ext_def models_lookup
        demo_job_def)
  from 1 2 3 4 5 6 demo_readback(1) show ?thesis by blast
qed

text \<open>
  C10. With the model key omitted, the default key is looked up and the registry maps it
  to \<^verbatim>\<open>lucataco/real-esrgan-video\<close>: the call never raises the unknown-model error, and
  for an uploaded upload, a configured token and a new id, the job inserted and the
  record returned both carry that model name.
\<close>

theorem C10_default_model:
  "(\<forall>text. fst (create_enhance_job x uuid_hex now seen k upload_id None s) \<noteq>
        Raise (EnhanceError (''Unknown model: '' @ text)))
   \<and> map_of REPLICATE_MODELS DEFAULT_ENHANCE_MODEL = Some ''lucataco/real-esrgan-video''
   \<and> (\<forall>u. get_upload upload_id s = Some u \<and> u_status u = ''uploaded'' \<and>
          REPLICATE_API_TOKEN x \<noteq> [] \<and> jobs s (''job_'' @ take 12 uuid_hex) = None \<longrightarrow>
        (\<exists>rec s' j.
           create_enhance_job x uuid_hex now seen k upload_id None s = (Ok (Some rec), s') \<and>
           j_id rec = ''job_'' @ take 12 uuid_hex \<and>
           j_model_name rec = ''lucataco/real-esrgan-video'' \<and>
           map_of REPLICATE_MODELS DEFAULT_ENHANCE_MODEL = Some (j_model_name rec) \<and>
           jobs s' (''job_'' @ take 12 uuid_hex) = Some j \<and>
           j_model_name j = ''lucataco/real-esrgan-video''))"
proof -
  have m: "map_of REPLICATE_MODELS DEFAULT_ENHANCE_MODEL = Some ''lucataco/real-esrgan-video''"
    by (simp add: models_lookup DEFAULT_ENHANCE_MODEL_def)
  have a: "\<forall>text. fst (create_enhance_job x uuid_hex now seen k upload_id None s) \<noteq>
        Raise (EnhanceError (''Unknown model: '' @ text))"
    by (auto simp: create_enhance_job_def insert_job_def Let_def m
        split: option.splits if_splits)
  have b: "\<forall>u. get_upload upload_id s = Some u \<and> u_status u = ''uploaded'' \<and>
          REPLICATE_API_TOKEN x \<noteq> [] \<and> jobs s (''job_'' @ take 12 uuid_hex) = None \<longrightarrow>
        (\<exists>rec s' j.
           create_enhance_job x uuid_hex now seen k upload_id None s = (Ok (Some rec), s') \<and>
           j_id rec = ''job_'' @ take 12 uuid_hex \<and>
           j_model_name rec = ''lucataco/real-esrgan-video'' \<and>
           map_of REPLICATE_MODELS DEFAULT_ENHANCE_MODEL = Some (j_model_name rec) \<and>
           jobs s' (''job_'' @ take 12 uuid_hex) = Some j \<and>
           j_model_name j = ''lucataco/real-esrgan-video'')"
  proof (intro allI impI)
    fix u
    let ?id = "''job_'' @ take 12 uuid_hex"
    let ?m = "''lucataco/real-esrgan-video''"
    let ?row = "\<lparr>j_id = ?id, j_upload_id = upload_id, j_model_name = ?m,
               j_replicate_id = None, j_status = ''pending'', j_progress = 0,
               j_output_key = None, j_output_size = None, j_error_message = None,
               j_created_at = now, j_started_at = None, j_completed_at = None\<rparr>"
    let ?s2 = "s\<lparr>jobs := (jobs s)(?id \<mapsto> ?row), tasks := tasks s @ [(?id, u, ?m)]\<rparr>"
    assume h: "get_upload upload_id s = Some u \<and> u_status u = ''uploaded'' \<and>
          REPLICATE_API_TOKEN x \<noteq> [] \<and> jobs s (''job_'' @ take 12 uuid_hex) = None"
    have eq: "create_enhance_job x uuid_hex now seen k upload_id None s =
        (Ok (jobs (unit_progress seen k x ?id u ?m ?s2) ?id), ?s2)"
      using h m by (intro create_enhance_job_ok) simp_all
    have "jobs ?s2 ?id = Some ?row" by simp
    from unit_progress_row[OF this, of seen k x u ?m]
    obtain rec where rec: "jobs (unit_progress seen k x ?id u ?m ?s2) ?id = Some rec"
      "j_id rec = ?id" "j_model_name rec = ?m"
      by auto
    from eq rec m
    show "\<exists>rec s' j.
           create_enhance_job x uuid_hex now seen k upload_id None s = (Ok (Some rec), s') \<and>
           j_id rec = ''job_'' @ take 12 uuid_hex \<and>
           j_model_name rec = ''lucataco/real-esrgan-video'' \<and>
           map_of REPLICATE_MODELS DEFAULT_ENHANCE_MODEL = Some (j_model_name rec) \<and>
           jobs s' (''job_'' @ take 12 uuid_hex) = Some j \<and>
           j_model_name j = ''lucataco/real-esrgan-video''"
      by simp
  qed
  from a m b show ?thesis by blast
qed

theorem C10_default_model_witness:
  "get_upload ''upl_1'' demo_state = Some demo_upload
   \<and> u_status demo_upload = ''uploaded''
   \<and> REPLICATE_API_TOKEN demo_ext \<noteq> []
   \<and> jobs demo_state (''job_'' @ take 12 ''0123456789abcdef0123456789abcdef'') = None
   \<and> (\<exists>rec. fst (create_enhance_job demo_ext ''0123456789abcdef0123456789abcdef''
                ''2024-03-07T10:00:00+00:00'' (Suc 0) 0 ''upl_1'' None demo_state) =
              Ok (Some rec)
          \<and> j_status rec = ''processing''
          \<and> j_model_name rec = ''lucataco/real-esrgan-video'')"
proof -
  have h: "get_upload ''upl_1'' demo_state = Some demo_upload"
    "u_status demo_upload = ''uploaded''"
    "REPLICATE_API_TOKEN demo_ext \<noteq> []"
    "jobs demo_state (''job_'' @ take 12 ''0123456789abcdef0123456789abcdef'') = None"
    by (simp_all add: get_upload_def demo_state_def demo_upload_def demo_ext_def)
  from C10_default_model[of demo_ext "''0123456789abcdef0123456789abcdef''"
      "''2024-03-07T10:00:00+00:00''" "Suc 0" 0 "''upl_1''" demo_state] h
  obtain rec s' where js: "create_enhance_job demo_ext ''0123456789abcdef0123456789abcdef''
       ''2024-03-07T10:00:00+00:00'' (Suc 0) 0 ''upl_1'' None demo_state = (Ok (Some rec), s')"
    "j_model_name rec = ''lucataco/real-esrgan-video''"
    by blast
  from js(1) demo_readback(2) have "j_status rec = ''processing''"
    by auto
  with js h show ?thesis by simp
qed

end
